theory Spec2Isabelle
  imports Complex_Main
begin

section \<open>Python values: exceptions as results\<close>

text \<open>
  The module \<^verbatim>\<open>model/models.py\<close> builds layer topologies with the tensor library
  and runs them. Every \<^verbatim>\<open>raise\<close> of the module or of a library call it makes is a
  value \<open>Inl e\<close>; \<open>e\<close> records the exception class and the text \<^verbatim>\<open>str(e)\<close>
  that the exception carries (empty for a bare \<^verbatim>\<open>assert\<close>). Where a sentence of the
  library goes on to quote the sizes or the value it met, the text stops before them.
\<close>

datatype exn =
  AssertionError | AttributeError | IndexError | RuntimeError | ValueError | ZeroDivisionError

datatype error = Error exn string

fun exn_class :: "error \<Rightarrow> exn" where
  "exn_class (Error c msg) = c"

fun message :: "error \<Rightarrow> string" where
  "message (Error c msg) = msg"

text \<open>
  The text of a failed attribute lookup,
  \<^verbatim>\<open>'Sequential' object has no attribute 'in_features'\<close>: the class of the object and
  the attribute, each between single quotes.
\<close>

definition quoted :: "string \<Rightarrow> string" where
  "quoted s = [CHR 0x27] @ s @ [CHR 0x27]"

definition no_attribute :: "string \<Rightarrow> string \<Rightarrow> error" where
  "no_attribute cls attr =
     Error AttributeError (quoted cls @ '' object has no attribute '' @ quoted attr)"

text \<open>Sequencing of two steps: the second runs only when the first did not raise.\<close>

fun bind :: "error + 'a \<Rightarrow> ('a \<Rightarrow> error + 'b) \<Rightarrow> error + 'b" where
  "bind (Inl e) f = Inl e"
| "bind (Inr v) f = f v"

text \<open>
  \<^verbatim>\<open>a / b\<close> on numbers and \<^verbatim>\<open>math.sqrt\<close>, with the exceptions Python raises. A
  square root is kept by its radicand, \<open>Sqrt a\<close> for the root of \<open>a\<close>, so that the model
  can be evaluated.
\<close>

datatype surd = Sqrt real

definition py_truediv :: "real \<Rightarrow> real \<Rightarrow> error + real" where
  "py_truediv a b =
     (if b = 0 then Inl (Error ZeroDivisionError ''float division by zero'') else Inr (a / b))"

definition math_sqrt :: "real \<Rightarrow> error + surd" where
  "math_sqrt a = (if a < 0 then Inl (Error ValueError ''math domain error'') else Inr (Sqrt a))"

section \<open>The tensor library: layers, parameters, shapes\<close>

text \<open>
  A parameter tensor is modelled by the procedure that last wrote it: the constructor's
  own \<^verbatim>\<open>reset_parameters\<close>, a pretrained checkpoint, or one of the in-place
  initialisers the module calls. The numbers drawn are outside the model.
\<close>

datatype param =
  Reset_parameters | Pretrained | Normal real surd | Kaiming_normal | Xavier_normal | Constant real

definition normal_inplace :: "real \<Rightarrow> surd \<Rightarrow> param \<Rightarrow> param" where
  "normal_inplace mean std w = Normal mean std"

definition kaiming_normal_inplace :: "param \<Rightarrow> param" where
  "kaiming_normal_inplace w = Kaiming_normal"

definition xavier_normal_inplace :: "param \<Rightarrow> param" where
  "xavier_normal_inplace w = Xavier_normal"

definition constant_inplace :: "real \<Rightarrow> param \<Rightarrow> param" where
  "constant_inplace c w = Constant c"

definition fill_inplace :: "real \<Rightarrow> param \<Rightarrow> param" where
  "fill_inplace c w = Constant c"

definition zero_inplace :: "param \<Rightarrow> param" where
  "zero_inplace w = Constant 0"

text \<open>
  The layers of \<^verbatim>\<open>torch.nn\<close> that the module uses, with the attributes it sets:
  \<^item> \<open>Conv2d in_channels out_channels kernel_size stride padding weight bias\<close>
    (\<open>bias\<close> is \<open>None\<close> for \<^verbatim>\<open>bias=False\<close>);
  \<^item> \<open>BatchNorm2d num_features momentum weight bias\<close>;
  \<^item> \<open>LeakyReLU inplace negative_slope\<close>, \<open>ReLU inplace\<close>, \<open>Dropout p\<close>;
  \<^item> \<open>Linear in_features out_features weight bias\<close>;
  \<^item> \<open>Identity\<close> and \<open>Sequential\<close> of layers.
\<close>

datatype layer =
    Conv2d int int "int \<times> int" int int param "param option"
  | BatchNorm2d int real param param
  | LeakyReLU bool real
  | ReLU bool
  | Dropout real
  | Linear int int param "param option"
  | Identity
  | Sequential "layer list"

text \<open>
  The constructors of the library. A tensor cannot have a negative dimension, so a
  negative channel or feature count raises when the parameters are allocated; a
  dropout probability outside \<open>[0, 1]\<close> raises.
\<close>

definition negative_dimension :: error where
  "negative_dimension = Error RuntimeError ''Trying to create tensor with negative dimension''"

definition nn_Conv2d :: "int \<Rightarrow> int \<Rightarrow> int \<Rightarrow> int \<Rightarrow> int \<Rightarrow> bool \<Rightarrow> error + layer" where
  "nn_Conv2d in_channels out_channels kernel_size stride padding bias =
     (if in_channels < 0 \<or> out_channels < 0 then Inl negative_dimension
      else Inr (Conv2d in_channels out_channels (kernel_size, kernel_size) stride padding
                  Reset_parameters (if bias then Some Reset_parameters else None)))"

definition nn_BatchNorm2d :: "int \<Rightarrow> real \<Rightarrow> error + layer" where
  "nn_BatchNorm2d num_features momentum =
     (if num_features < 0 then Inl negative_dimension
      else Inr (BatchNorm2d num_features momentum Reset_parameters Reset_parameters))"

definition nn_Linear :: "int \<Rightarrow> int \<Rightarrow> error + layer" where
  "nn_Linear in_features out_features =
     (if in_features < 0 \<or> out_features < 0 then Inl negative_dimension
      else Inr (Linear in_features out_features Reset_parameters (Some Reset_parameters)))"

definition nn_Dropout :: "real \<Rightarrow> error + layer" where
  "nn_Dropout p =
     (if p < 0 \<or> 1 < p
      then Inl (Error ValueError ''dropout probability has to be between 0 and 1'')
      else Inr (Dropout p))"

text \<open>
  Reading \<^verbatim>\<open>.in_features\<close>: only a \<open>Linear\<close> layer has the attribute; on any
  other module the attribute lookup raises \<^verbatim>\<open>AttributeError\<close>.
\<close>

fun class_name :: "layer \<Rightarrow> string" where
  "class_name (Conv2d i oc ks s p w b) = ''Conv2d''"
| "class_name (BatchNorm2d c m w b) = ''BatchNorm2d''"
| "class_name (LeakyReLU inplace slope) = ''LeakyReLU''"
| "class_name (ReLU inplace) = ''ReLU''"
| "class_name (Dropout p) = ''Dropout''"
| "class_name (Linear i oc w b) = ''Linear''"
| "class_name Identity = ''Identity''"
| "class_name (Sequential ls) = ''Sequential''"

fun in_features :: "layer \<Rightarrow> error + int" where
  "in_features (Linear i oc w b) = Inr i"
| "in_features l = Inl (no_attribute (class_name l) ''in_features'')"

text \<open>
  A tensor in flight is modelled by its shape and by the expression that computed it from
  the input of the forward pass (the trace of the layers applied). \<open>Trunk\<close> stands for
  the convolutional trunk of a network of the model zoo, up to its pooled features.
\<close>

datatype resnet_arch = ResNet50 | ResNet18

datatype expr =
    Input
  | App layer expr
  | Add expr expr
  | Mean "nat list" expr
  | Trunk resnet_arch expr

datatype tensor = Tensor "int list" expr

fun shape :: "tensor \<Rightarrow> int list" where
  "shape (Tensor s e) = s"

fun trace :: "tensor \<Rightarrow> expr" where
  "trace (Tensor s e) = e"

text \<open>The errors of the library's shape checks.\<close>

definition conv_rank_error :: error where
  "conv_rank_error =
     Error RuntimeError ''Expected 3D (unbatched) or 4D (batched) input to conv2d''"

definition conv_channels_error :: error where
  "conv_channels_error = Error RuntimeError ''Given groups=1, weight of size''"

definition conv_stride_error :: error where
  "conv_stride_error = Error RuntimeError ''non-positive stride is not supported''"

definition conv_kernel_error :: error where
  "conv_kernel_error = Error RuntimeError ''Calculated padded input size per channel''"

definition norm_rank_error :: error where
  "norm_rank_error = Error ValueError ''expected 4D input''"

definition norm_single_value_error :: error where
  "norm_single_value_error =
     Error ValueError ''Expected more than 1 value per channel when training''"

definition norm_channels_error :: error where
  "norm_channels_error = Error RuntimeError ''running_mean should contain''"

definition linear_shape_error :: error where
  "linear_shape_error = Error RuntimeError ''mat1 and mat2 shapes cannot be multiplied''"

definition add_shape_error :: error where
  "add_shape_error = Error RuntimeError ''The size of tensor a''"

text \<open>
  Output size of a convolution along one spatial axis (the library's documented
  formula, dilation 1): \<open>floor ((size + 2 * padding - kernel) / stride) + 1\<close>.
\<close>

definition conv_out :: "int \<Rightarrow> int \<Rightarrow> int \<Rightarrow> int \<Rightarrow> int" where
  "conv_out sz ks stride padding = (sz + 2 * padding - ks) div stride + 1"

text \<open>
  Calling a layer. Every module is constructed in training mode and the module
  \<^verbatim>\<open>model/models.py\<close> never calls \<^verbatim>\<open>eval()\<close>, so every call is a call in training
  mode.
  \<^item> A convolution takes a batch \<open>[N, C, H, W]\<close> or a single image \<open>[C, H, W]\<close> with
    \<open>C\<close> its input channels; the stride must be positive and the kernel must fit in
    the padded input.
  \<^item> A batch normalisation takes \<open>[N, C, H, W]\<close>. In training mode it refuses an input
    with a single value per channel, that is with \<open>N * H * W = 1\<close>; then the channel
    count must be its own.
  \<^item> A linear layer maps the last axis.
  \<^item> Activations and dropout keep the shape; the identity returns its argument itself.
    An activation built with \<^verbatim>\<open>inplace=True\<close> overwrites its argument; in this module
    the argument is always an intermediate result that nothing reads afterwards, so
    the trace is the same.

  The model follows the shapes and the order of the layers applied; the numbers are
  outside it.
\<close>

fun conv2d_size :: "int \<Rightarrow> int \<Rightarrow> int \<times> int \<Rightarrow> int \<Rightarrow> int \<Rightarrow> int \<Rightarrow> int \<Rightarrow> int
    \<Rightarrow> error + int \<times> int" where
  "conv2d_size i oc (kh, kw) s p C H W =
     (if C \<noteq> i then Inl conv_channels_error
      else if s \<le> 0 then Inl conv_stride_error
      else if H + 2 * p < kh \<or> W + 2 * p < kw then Inl conv_kernel_error
      else Inr (conv_out H kh s p, conv_out W kw s p))"

fun call_layer :: "layer \<Rightarrow> tensor \<Rightarrow> error + tensor"
  and call_layers :: "layer list \<Rightarrow> tensor \<Rightarrow> error + tensor" where
  "call_layer (Conv2d i oc ks s p w b) x =
     (case shape x of
        [N, C, H, W] \<Rightarrow>
          bind (conv2d_size i oc ks s p C H W) (\<lambda>(H', W').
            Inr (Tensor [N, oc, H', W'] (App (Conv2d i oc ks s p w b) (trace x))))
      | [C, H, W] \<Rightarrow>
          bind (conv2d_size i oc ks s p C H W) (\<lambda>(H', W').
            Inr (Tensor [oc, H', W'] (App (Conv2d i oc ks s p w b) (trace x))))
      | _ \<Rightarrow> Inl conv_rank_error)"
| "call_layer (BatchNorm2d c m w b) x =
     (case shape x of
        [N, C, H, W] \<Rightarrow>
          (if N * H * W = 1 then Inl norm_single_value_error
           else if C \<noteq> c then Inl norm_channels_error
           else Inr (Tensor [N, C, H, W] (App (BatchNorm2d c m w b) (trace x))))
      | _ \<Rightarrow> Inl norm_rank_error)"
| "call_layer (LeakyReLU inplace slope) x =
     Inr (Tensor (shape x) (App (LeakyReLU inplace slope) (trace x)))"
| "call_layer (ReLU inplace) x = Inr (Tensor (shape x) (App (ReLU inplace) (trace x)))"
| "call_layer (Dropout p) x = Inr (Tensor (shape x) (App (Dropout p) (trace x)))"
| "call_layer (Linear i oc w b) x =
     (if shape x \<noteq> [] \<and> last (shape x) = i
      then Inr (Tensor (butlast (shape x) @ [oc]) (App (Linear i oc w b) (trace x)))
      else Inl linear_shape_error)"
| "call_layer Identity x = Inr x"
| "call_layer (Sequential ls) x = call_layers ls x"
| "call_layers [] x = Inr x"
| "call_layers (l # ls) x = bind (call_layer l x) (call_layers ls)"

text \<open>
  \<^verbatim>\<open>a + b\<close> on tensors broadcasts: the shapes are aligned at the last axis, and two
  sizes agree when they are equal or one of them is 1.
\<close>

fun broadcast_rev :: "int list \<Rightarrow> int list \<Rightarrow> int list option" where
  "broadcast_rev [] ys = Some ys"
| "broadcast_rev (x # xs) [] = Some (x # xs)"
| "broadcast_rev (x # xs) (y # ys) =
     (if x = y \<or> y = 1 then map_option (Cons x) (broadcast_rev xs ys)
      else if x = 1 then map_option (Cons y) (broadcast_rev xs ys)
      else None)"

definition tensor_add :: "tensor \<Rightarrow> tensor \<Rightarrow> error + tensor" where
  "tensor_add a b =
     (case broadcast_rev (rev (shape a)) (rev (shape b)) of
        None \<Rightarrow> Inl add_shape_error
      | Some s \<Rightarrow> Inr (Tensor (rev s) (Add (trace a) (trace b))))"

text \<open>\<^verbatim>\<open>torch.mean(feat, dim=(2, 3))\<close>: the axes 2 and 3 are averaged away.\<close>

definition torch_mean_2_3 :: "tensor \<Rightarrow> error + tensor" where
  "torch_mean_2_3 x =
     (if length (shape x) < 4 then Inl (Error IndexError ''Dimension out of range'')
      else Inr (Tensor (take 2 (shape x) @ drop 4 (shape x)) (Mean [2, 3] (trace x))))"

section \<open>BasicBlockPreAct\<close>

record BasicBlockPreAct =
  bn1 :: layer
  relu1 :: layer
  conv1 :: layer
  bn2 :: layer
  relu2 :: layer
  dropout :: "layer option"
  conv2 :: layer
  downsample :: "layer option"
  pre_res_act :: bool

text \<open>\<^verbatim>\<open>BasicBlockPreAct.__init__(in_chan, out_chan, drop_rate, stride, pre_res_act)\<close>\<close>

definition BasicBlockPreAct_init ::
  "int \<Rightarrow> int \<Rightarrow> real \<Rightarrow> int \<Rightarrow> bool \<Rightarrow> error + BasicBlockPreAct" where
  "BasicBlockPreAct_init in_chan out_chan drop_rate stride pre =
     bind (nn_BatchNorm2d in_chan (1 / 1000)) (\<lambda>b1.
     bind (nn_Conv2d in_chan out_chan 3 stride 1 False) (\<lambda>c1.
     bind (nn_BatchNorm2d out_chan (1 / 1000)) (\<lambda>b2.
     bind (if \<not> drop_rate = 0 then map_sum id Some (nn_Dropout drop_rate) else Inr None) (\<lambda>dr.
     bind (nn_Conv2d out_chan out_chan 3 1 1 False) (\<lambda>c2.
     bind (if in_chan \<noteq> out_chan \<or> stride \<noteq> 1
           then map_sum id Some (nn_Conv2d in_chan out_chan 1 stride 0 False)
           else Inr None) (\<lambda>ds.
     Inr \<lparr>bn1 = b1, relu1 = LeakyReLU True (1 / 10), conv1 = c1, bn2 = b2,
          relu2 = LeakyReLU True (1 / 10), dropout = dr, conv2 = c2, downsample = ds,
          pre_res_act = pre\<rparr>))))))"

text \<open>\<^verbatim>\<open>BasicBlockPreAct.forward(x)\<close>\<close>

definition BasicBlockPreAct_forward :: "BasicBlockPreAct \<Rightarrow> tensor \<Rightarrow> error + tensor" where
  "BasicBlockPreAct_forward self x =
     bind (call_layer (bn1 self) x) (\<lambda>b1.
     bind (call_layer (relu1 self) b1) (\<lambda>act1.
     bind (call_layer (conv1 self) act1) (\<lambda>residual.
     bind (call_layer (bn2 self) residual) (\<lambda>residual.
     bind (call_layer (relu2 self) residual) (\<lambda>residual.
     bind (case dropout self of None \<Rightarrow> Inr residual | Some d \<Rightarrow> call_layer d residual)
       (\<lambda>residual.
     bind (call_layer (conv2 self) residual) (\<lambda>residual.
     bind (case downsample self of
             None \<Rightarrow> Inr (if pre_res_act self then act1 else x)
           | Some d \<Rightarrow> call_layer d (if pre_res_act self then act1 else x)) (\<lambda>shortcut.
     tensor_add shortcut residual))))))))"

text \<open>A stage is an \<^verbatim>\<open>nn.Sequential\<close> of blocks: calling it runs the blocks in order.\<close>

fun call_blocks :: "BasicBlockPreAct list \<Rightarrow> tensor \<Rightarrow> error + tensor" where
  "call_blocks [] x = Inr x"
| "call_blocks (b # bs) x = bind (BasicBlockPreAct_forward b x) (call_blocks bs)"

section \<open>WideResnetBackbone\<close>

record WideResnetBackbone =
  bb_k :: int
  bb_n :: int
  bb_conv1 :: layer
  layer1 :: "BasicBlockPreAct list"
  layer2 :: "BasicBlockPreAct list"
  layer3 :: "BasicBlockPreAct list"
  bn_last :: layer
  relu_last :: layer

text \<open>
  \<^verbatim>\<open>create_layer(in_chan, out_chan, bnum, stride, drop_rate, pre_res_act)\<close>: the first
  block, then the loop \<^verbatim>\<open>for _ in range(bnum - 1)\<close>, which runs \<open>nat (bnum - 1)\<close>
  times (not at all when \<open>bnum \<le> 1\<close>).
\<close>

fun append_blocks ::
  "nat \<Rightarrow> int \<Rightarrow> real \<Rightarrow> BasicBlockPreAct list \<Rightarrow> error + BasicBlockPreAct list" where
  "append_blocks 0 out_chan drop_rate layers = Inr layers"
| "append_blocks (Suc m) out_chan drop_rate layers =
     bind (BasicBlockPreAct_init out_chan out_chan drop_rate 1 False) (\<lambda>b.
       append_blocks m out_chan drop_rate (layers @ [b]))"

definition create_layer ::
  "int \<Rightarrow> int \<Rightarrow> int \<Rightarrow> int \<Rightarrow> real \<Rightarrow> bool \<Rightarrow> error + BasicBlockPreAct list" where
  "create_layer in_chan out_chan bnum stride drop_rate pre =
     bind (BasicBlockPreAct_init in_chan out_chan drop_rate stride pre) (\<lambda>b.
       append_blocks (nat (bnum - 1)) out_chan drop_rate [b])"

text \<open>
  \<^verbatim>\<open>WideResnetBackbone.init_weight\<close>: the loop over \<^verbatim>\<open>self.modules()\<close>, one case
  per \<^verbatim>\<open>isinstance\<close> branch. A convolution computes
  \<^verbatim>\<open>n = kernel_size[0] * kernel_size[1] * out_channels\<close> and \<^verbatim>\<open>math.sqrt(2. / n)\<close>,
  writes the weight with \<^verbatim>\<open>normal_\<close> and then again with \<^verbatim>\<open>kaiming_normal_\<close>.
\<close>

fun init_weight_module :: "layer \<Rightarrow> error + layer"
  and init_weight_modules :: "layer list \<Rightarrow> error + layer list" where
  "init_weight_module (Conv2d i oc (kh, kw) s p w b) =
     bind (py_truediv 2 (of_int (kh * kw * oc))) (\<lambda>q.
     bind (math_sqrt q) (\<lambda>std.
     Inr (Conv2d i oc (kh, kw) s p (kaiming_normal_inplace (normal_inplace 0 std w))
            (map_option (constant_inplace 0) b))))"
| "init_weight_module (BatchNorm2d c m w b) =
     Inr (BatchNorm2d c m (fill_inplace 1 w) (zero_inplace b))"
| "init_weight_module (Linear i oc w b) =
     (case b of
        None \<Rightarrow> Inl (no_attribute ''NoneType'' ''data'')
      | Some b' \<Rightarrow> Inr (Linear i oc w (Some (zero_inplace b'))))"
| "init_weight_module (Sequential ls) = map_sum id Sequential (init_weight_modules ls)"
| "init_weight_module (LeakyReLU inplace slope) = Inr (LeakyReLU inplace slope)"
| "init_weight_module (ReLU inplace) = Inr (ReLU inplace)"
| "init_weight_module (Dropout p) = Inr (Dropout p)"
| "init_weight_module Identity = Inr Identity"
| "init_weight_modules [] = Inr []"
| "init_weight_modules (l # ls) =
     bind (init_weight_module l) (\<lambda>l'.
     bind (init_weight_modules ls) (\<lambda>ls'. Inr (l' # ls')))"

fun init_weight_option :: "layer option \<Rightarrow> error + layer option" where
  "init_weight_option None = Inr None"
| "init_weight_option (Some l) = map_sum id Some (init_weight_module l)"

text \<open>The modules of a block, in the order \<^verbatim>\<open>__init__\<close> registers them.\<close>

definition init_weight_block :: "BasicBlockPreAct \<Rightarrow> error + BasicBlockPreAct" where
  "init_weight_block b =
     bind (init_weight_module (bn1 b)) (\<lambda>b1.
     bind (init_weight_module (relu1 b)) (\<lambda>r1.
     bind (init_weight_module (conv1 b)) (\<lambda>c1.
     bind (init_weight_module (bn2 b)) (\<lambda>b2.
     bind (init_weight_module (relu2 b)) (\<lambda>r2.
     bind (init_weight_option (dropout b)) (\<lambda>dr.
     bind (init_weight_module (conv2 b)) (\<lambda>c2.
     bind (init_weight_option (downsample b)) (\<lambda>ds.
     Inr (b\<lparr>bn1 := b1, relu1 := r1, conv1 := c1, bn2 := b2, relu2 := r2, dropout := dr,
            conv2 := c2, downsample := ds\<rparr>)))))))))"

fun init_weight_blocks :: "BasicBlockPreAct list \<Rightarrow> error + BasicBlockPreAct list" where
  "init_weight_blocks [] = Inr []"
| "init_weight_blocks (b # bs) =
     bind (init_weight_block b) (\<lambda>b'.
     bind (init_weight_blocks bs) (\<lambda>bs'. Inr (b' # bs')))"

definition WideResnetBackbone_init_weight ::
  "WideResnetBackbone \<Rightarrow> error + WideResnetBackbone" where
  "WideResnetBackbone_init_weight self =
     bind (init_weight_module (bb_conv1 self)) (\<lambda>c1.
     bind (init_weight_blocks (layer1 self)) (\<lambda>l1.
     bind (init_weight_blocks (layer2 self)) (\<lambda>l2.
     bind (init_weight_blocks (layer3 self)) (\<lambda>l3.
     bind (init_weight_module (bn_last self)) (\<lambda>bl.
     bind (init_weight_module (relu_last self)) (\<lambda>rl.
     Inr (self\<lparr>bb_conv1 := c1, layer1 := l1, layer2 := l2, layer3 := l3, bn_last := bl,
               relu_last := rl\<rparr>)))))))"

text \<open>
  \<^verbatim>\<open>WideResnetBackbone.__init__(k, n, drop_rate)\<close>. The \<^verbatim>\<open>assert\<close> has no message,
  so the \<^verbatim>\<open>AssertionError\<close> it raises carries the empty text.
\<close>

definition WideResnetBackbone_init :: "int \<Rightarrow> int \<Rightarrow> real \<Rightarrow> error + WideResnetBackbone" where
  "WideResnetBackbone_init k n drop_rate =
     (if (n - 4) mod 6 \<noteq> 0 then Inl (Error AssertionError [])
      else
        let n_blocks = (n - 4) div 6;
            n_layers = [16] @ map (\<lambda>i. k * 16 * 2 ^ i) [0..<3]
        in
        bind (nn_Conv2d 3 (n_layers ! 0) 3 1 1 False) (\<lambda>c1.
        bind (create_layer (n_layers ! 0) (n_layers ! 1) n_blocks 1 drop_rate True) (\<lambda>l1.
        bind (create_layer (n_layers ! 1) (n_layers ! 2) n_blocks 2 drop_rate False) (\<lambda>l2.
        bind (create_layer (n_layers ! 2) (n_layers ! 3) n_blocks 2 drop_rate False) (\<lambda>l3.
        bind (nn_BatchNorm2d (n_layers ! 3) (1 / 1000)) (\<lambda>bl.
        WideResnetBackbone_init_weight
          \<lparr>bb_k = k, bb_n = n, bb_conv1 = c1, layer1 = l1, layer2 = l2, layer3 = l3,
           bn_last = bl, relu_last = LeakyReLU True (1 / 10)\<rparr>))))))"

text \<open>\<^verbatim>\<open>WideResnetBackbone.forward(x)\<close> returns the pair \<^verbatim>\<open>(feat2, feat4)\<close>.\<close>

definition WideResnetBackbone_forward ::
  "WideResnetBackbone \<Rightarrow> tensor \<Rightarrow> error + tensor \<times> tensor" where
  "WideResnetBackbone_forward self x =
     bind (call_layer (bb_conv1 self) x) (\<lambda>feat.
     bind (call_blocks (layer1 self) feat) (\<lambda>feat.
     bind (call_blocks (layer2 self) feat) (\<lambda>feat2.
     bind (call_blocks (layer3 self) feat2) (\<lambda>feat4.
     bind (call_layer (bn_last self) feat4) (\<lambda>feat4.
     bind (call_layer (relu_last self) feat4) (\<lambda>feat4.
     Inr (feat2, feat4)))))))"

section \<open>WideResnet\<close>

record WideResnet =
  n_layers :: int
  wrn_k :: int
  backbone :: WideResnetBackbone
  classifier :: layer

text \<open>
  \<^verbatim>\<open>WideResnet.__init__(n_classes, k, n)\<close>: the backbone with its default
  \<^verbatim>\<open>drop_rate=0\<close>, then the classifier. Nothing is called after the classifier is built.
\<close>

definition WideResnet_init :: "int \<Rightarrow> int \<Rightarrow> int \<Rightarrow> error + WideResnet" where
  "WideResnet_init n_classes k n =
     bind (WideResnetBackbone_init k n 0) (\<lambda>bb.
     bind (if k < 4 then nn_Linear (64 * k) n_classes
           else
             let num_ftrs = 64 * k in
             bind (nn_Linear num_ftrs (num_ftrs div 2)) (\<lambda>fc1.
             bind (nn_Linear (num_ftrs div 2) n_classes) (\<lambda>fc2.
             Inr (Sequential [fc1, ReLU True, fc2])))) (\<lambda>cl.
     Inr \<lparr>n_layers = n, wrn_k = k, backbone = bb, classifier = cl\<rparr>))"

text \<open>\<^verbatim>\<open>WideResnet.forward(x)\<close>: \<^verbatim>\<open>self.backbone(x)[-1]\<close> is the second of the pair.\<close>

definition WideResnet_forward :: "WideResnet \<Rightarrow> tensor \<Rightarrow> error + tensor" where
  "WideResnet_forward self x =
     bind (WideResnetBackbone_forward (backbone self) x) (\<lambda>feats.
     bind (torch_mean_2_3 (snd feats)) (\<lambda>feat.
     call_layer (classifier self) feat))"

text \<open>
  \<^verbatim>\<open>WideResnet.init_weight\<close>, a method that no constructor of the module calls. It reads
  \<^verbatim>\<open>self.classifier.weight\<close> and \<^verbatim>\<open>self.classifier.bias\<close>, which only a layer with
  parameters has.
\<close>

definition WideResnet_init_weight :: "WideResnet \<Rightarrow> error + WideResnet" where
  "WideResnet_init_weight self =
     (case classifier self of
        Linear i oc w b \<Rightarrow>
          Inr (self\<lparr>classifier :=
                 Linear i oc (xavier_normal_inplace w) (map_option (constant_inplace 0) b)\<rparr>)
      | Conv2d i oc ks s p w b \<Rightarrow>
          Inr (self\<lparr>classifier :=
                 Conv2d i oc ks s p (xavier_normal_inplace w) (map_option (constant_inplace 0) b)\<rparr>)
      | BatchNorm2d c m w b \<Rightarrow>
          Inl (Error ValueError
            ''Fan in and fan out can not be computed for tensor with fewer than 2 dimensions'')
      | l \<Rightarrow> Inl (no_attribute (class_name l) ''weight''))"

section \<open>The model zoo: ResNet-50 and ResNet-18\<close>

text \<open>
  \<^verbatim>\<open>torchvision.models.resnet50\<close> and \<^verbatim>\<open>resnet18\<close> are library code. What the
  module uses of them: the network has an attribute \<^verbatim>\<open>fc\<close>, a linear layer from the
  pooled features (2048 for ResNet-50, 512 for ResNet-18) to 1000 classes, and calling
  the network on \<open>[N, 3, H, W]\<close> pools the trunk's features to \<open>[N, features]\<close>
  (adaptive pooling: any \<open>H, W \<ge> 1\<close>) and applies \<^verbatim>\<open>fc\<close>. Loading the pretrained
  weights is taken to succeed.

  The trunk starts with a convolution from 3 channels and halves the resolution five
  times (a stride-2 convolution, a stride-2 pooling and three stride-2 stages, each
  from a size \<open>s\<close> to \<open>(s - 1) div 2 + 1\<close>), with a batch normalisation after its
  convolutions. So its last normalisations see \<open>(H - 1) div 32 + 1\<close> by
  \<open>(W - 1) div 32 + 1\<close> values per image, and in training mode the network refuses an
  input that leaves them a single value per channel. A single image \<open>[3, H, W]\<close>
  passes the first convolution and is refused by the first normalisation.
\<close>

record ResNet =
  arch :: resnet_arch
  fc :: layer

fun resnet_features :: "resnet_arch \<Rightarrow> int" where
  "resnet_features ResNet50 = 2048"
| "resnet_features ResNet18 = 512"

definition zoo_resnet :: "resnet_arch \<Rightarrow> bool \<Rightarrow> ResNet" where
  "zoo_resnet a pretrained =
     (let w = (if pretrained then Pretrained else Reset_parameters)
      in \<lparr>arch = a, fc = Linear (resnet_features a) 1000 w (Some w)\<rparr>)"

definition models_resnet50 :: "bool \<Rightarrow> ResNet" where
  "models_resnet50 pretrained = zoo_resnet ResNet50 pretrained"

definition models_resnet18 :: "bool \<Rightarrow> ResNet" where
  "models_resnet18 pretrained = zoo_resnet ResNet18 pretrained"

definition ResNet_forward :: "ResNet \<Rightarrow> tensor \<Rightarrow> error + tensor" where
  "ResNet_forward self x =
     (case shape x of
        [N, C, H, W] \<Rightarrow>
          (if C \<noteq> 3 then Inl conv_channels_error
           else if H < 1 \<or> W < 1 then Inl conv_kernel_error
           else if N * ((H - 1) div 32 + 1) * ((W - 1) div 32 + 1) = 1
           then Inl norm_single_value_error
           else call_layer (fc self)
                  (Tensor [N, resnet_features (arch self)] (Trunk (arch self) (trace x))))
      | [C, H, W] \<Rightarrow>
          (if C \<noteq> 3 then Inl conv_channels_error
           else if H < 1 \<or> W < 1 then Inl conv_kernel_error
           else Inl norm_rank_error)
      | _ \<Rightarrow> Inl conv_rank_error)"

section \<open>Objects and references\<close>

text \<open>
  The embedding-head classes hold their sub-modules by reference and \<^verbatim>\<open>adapt\<close>
  rebinds one of the references. The store is the list of the objects allocated so far;
  a reference is an index into it, and a new object gets the next index.
\<close>

datatype obj = Layer_obj layer | WideResnet_obj WideResnet | ResNet_obj ResNet

type_synonym ref = nat

type_synonym store = "obj list"

definition alloc :: "store \<Rightarrow> obj \<Rightarrow> ref \<times> store" where
  "alloc h ob = (length h, h @ [ob])"

text \<open>
  Calling the module behind a reference dispatches on the object's class. A reference
  outside the store cannot arise in a model that a constructor returned.
\<close>

definition call_module :: "store \<Rightarrow> ref \<Rightarrow> tensor \<Rightarrow> error + tensor" where
  "call_module h r x =
     (if r < length h then
        (case h ! r of
           Layer_obj l \<Rightarrow> call_layer l x
         | WideResnet_obj m \<Rightarrow> WideResnet_forward m x
         | ResNet_obj m \<Rightarrow> ResNet_forward m x)
      else Inl (Error RuntimeError ''dangling reference''))"

section \<open>The embedding-head models\<close>

text \<open>
  The three classes share the attributes \<^verbatim>\<open>num_ftrs\<close>, \<^verbatim>\<open>fc_classes\<close> and
  \<^verbatim>\<open>fc_emb\<close>; the two ResNet classes add \<^verbatim>\<open>model_resnet\<close>, the Wide-ResNet class
  adds \<^verbatim>\<open>model_base\<close> and \<^verbatim>\<open>k\<close>.
\<close>

record EmbeddingHead =
  num_ftrs :: int
  fc_classes :: ref
  fc_emb :: ref

record ResNetWithEmbeddingHead = EmbeddingHead +
  model_resnet :: ref

record WideResnetWithEmbeddingHead = EmbeddingHead +
  model_base :: ref
  head_k :: int

text \<open>\<^verbatim>\<open>ResNet50WithEmbeddingHead.__init__(num_classes, emb_dim, pretrained)\<close>\<close>

definition ResNet50WithEmbeddingHead_init ::
  "store \<Rightarrow> int \<Rightarrow> int \<Rightarrow> bool \<Rightarrow> error + ResNetWithEmbeddingHead \<times> store" where
  "ResNet50WithEmbeddingHead_init h num_classes emb_dim pretrained =
     (let net = models_resnet50 pretrained;
          (r_net, h1) = alloc h (ResNet_obj net)
      in
      bind (in_features (fc net)) (\<lambda>ftrs.
      let h2 = h1[r_net := ResNet_obj (net\<lparr>fc := Identity\<rparr>)] in
      bind (nn_Linear ftrs num_classes) (\<lambda>cls.
      let (r_cls, h3) = alloc h2 (Layer_obj cls) in
      bind (nn_Linear ftrs emb_dim) (\<lambda>emb.
      let (r_emb, h4) = alloc h3 (Layer_obj emb) in
      Inr (\<lparr>num_ftrs = ftrs, fc_classes = r_cls, fc_emb = r_emb, model_resnet = r_net\<rparr>,
           h4)))))"

text \<open>\<^verbatim>\<open>ResNet18WithEmbeddingHead.__init__(num_classes, emb_dim, pretrained)\<close>\<close>

definition ResNet18WithEmbeddingHead_init ::
  "store \<Rightarrow> int \<Rightarrow> int \<Rightarrow> bool \<Rightarrow> error + ResNetWithEmbeddingHead \<times> store" where
  "ResNet18WithEmbeddingHead_init h num_classes emb_dim pretrained =
     (let net = models_resnet18 pretrained;
          (r_net, h1) = alloc h (ResNet_obj net)
      in
      bind (in_features (fc net)) (\<lambda>ftrs.
      let h2 = h1[r_net := ResNet_obj (net\<lparr>fc := Identity\<rparr>)] in
      bind (nn_Linear ftrs num_classes) (\<lambda>cls.
      let (r_cls, h3) = alloc h2 (Layer_obj cls) in
      bind (nn_Linear ftrs 2048) (\<lambda>emb1.
      bind (nn_Linear 2048 emb_dim) (\<lambda>emb2.
      let (r_emb, h4) = alloc h3 (Layer_obj (Sequential [emb1, ReLU True, emb2])) in
      Inr (\<lparr>num_ftrs = ftrs, fc_classes = r_cls, fc_emb = r_emb, model_resnet = r_net\<rparr>,
           h4))))))"

text \<open>
  \<^verbatim>\<open>forward(x)\<close> of the two ResNet classes (the same text in both): the triple
  \<^verbatim>\<open>(out1, out2, x)\<close>, where \<^verbatim>\<open>x\<close> is what \<^verbatim>\<open>self.model_resnet\<close> returned.
\<close>

definition ResNetWithEmbeddingHead_forward ::
  "store \<Rightarrow> ResNetWithEmbeddingHead \<Rightarrow> tensor \<Rightarrow> error + tensor \<times> tensor \<times> tensor" where
  "ResNetWithEmbeddingHead_forward h self x =
     bind (call_module h (model_resnet self) x) (\<lambda>x.
     bind (call_module h (fc_classes self) x) (\<lambda>out1.
     bind (call_module h (fc_emb self) x) (\<lambda>out2.
     Inr (out1, out2, x))))"

text \<open>\<^verbatim>\<open>WideResnetWithEmbeddingHead.__init__(num_classes, k, n, emb_dim)\<close>\<close>

definition WideResnetWithEmbeddingHead_init ::
  "store \<Rightarrow> int \<Rightarrow> int \<Rightarrow> int \<Rightarrow> int \<Rightarrow> error + WideResnetWithEmbeddingHead \<times> store" where
  "WideResnetWithEmbeddingHead_init h num_classes k n emb_dim =
     bind (WideResnet_init num_classes k n) (\<lambda>net.
     let (r_net, h1) = alloc h (WideResnet_obj net) in
     bind (in_features (classifier net)) (\<lambda>ftrs.
     let h2 = h1[r_net := WideResnet_obj (net\<lparr>classifier := Identity\<rparr>)] in
     bind (nn_Linear ftrs num_classes) (\<lambda>cls.
     let (r_cls, h3) = alloc h2 (Layer_obj cls) in
     bind (nn_Linear ftrs 2048) (\<lambda>emb1.
     bind (nn_Linear 2048 emb_dim) (\<lambda>emb2.
     let (r_emb, h4) = alloc h3 (Layer_obj (Sequential [emb1, ReLU True, emb2])) in
     Inr (\<lparr>num_ftrs = ftrs, fc_classes = r_cls, fc_emb = r_emb, model_base = r_net,
           head_k = k\<rparr>, h4))))))"

text \<open>\<^verbatim>\<open>WideResnetWithEmbeddingHead.forward(x)\<close>\<close>

definition WideResnetWithEmbeddingHead_forward ::
  "store \<Rightarrow> WideResnetWithEmbeddingHead \<Rightarrow> tensor \<Rightarrow> error + tensor \<times> tensor \<times> tensor" where
  "WideResnetWithEmbeddingHead_forward h self x =
     bind (call_module h (model_base self) x) (\<lambda>x.
     bind (call_module h (fc_classes self) x) (\<lambda>out1.
     bind (call_module h (fc_emb self) x) (\<lambda>out2.
     Inr (out1, out2, x))))"

text \<open>
  \<^verbatim>\<open>adapt(num_classes)\<close>, the same text in the three classes:
  \<^verbatim>\<open>self.fc_classes = nn.Linear(self.num_ftrs, num_classes)\<close>. It allocates a new linear
  layer and rebinds \<^verbatim>\<open>fc_classes\<close>; it is defined once, for any of the three records.
\<close>

definition adapt ::
  "store \<Rightarrow> 'a EmbeddingHead_scheme \<Rightarrow> int \<Rightarrow> error + 'a EmbeddingHead_scheme \<times> store" where
  "adapt h self num_classes =
     bind (nn_Linear (num_ftrs self) num_classes) (\<lambda>cls.
     let (r_cls, h') = alloc h (Layer_obj cls) in
     Inr (self\<lparr>fc_classes := r_cls\<rparr>, h'))"

section \<open>What the constructors build\<close>

text \<open>
  The block that \<open>BasicBlockPreAct_init\<close> returns when no library constructor raises,
  with the state of its parameters left open (convolution weight, normalisation weight
  and bias): the proofs below show that the constructor returns it with every parameter
  as the library reset it, and that \<open>init_weight_block\<close> rewrites the parameters only.
\<close>

definition block_of ::
  "param \<Rightarrow> param \<Rightarrow> param \<Rightarrow> int \<Rightarrow> int \<Rightarrow> real \<Rightarrow> int \<Rightarrow> bool \<Rightarrow> BasicBlockPreAct" where
  "block_of cw nw nb in_chan out_chan drop_rate stride pre =
     \<lparr>bn1 = BatchNorm2d in_chan (1 / 1000) nw nb,
      relu1 = LeakyReLU True (1 / 10),
      conv1 = Conv2d in_chan out_chan (3, 3) stride 1 cw None,
      bn2 = BatchNorm2d out_chan (1 / 1000) nw nb,
      relu2 = LeakyReLU True (1 / 10),
      dropout = (if drop_rate = 0 then None else Some (Dropout drop_rate)),
      conv2 = Conv2d out_chan out_chan (3, 3) 1 1 cw None,
      downsample = (if in_chan \<noteq> out_chan \<or> stride \<noteq> 1
                    then Some (Conv2d in_chan out_chan (1, 1) stride 0 cw None) else None),
      pre_res_act = pre\<rparr>"

definition stage_of ::
  "param \<Rightarrow> param \<Rightarrow> param \<Rightarrow> int \<Rightarrow> int \<Rightarrow> int \<Rightarrow> int \<Rightarrow> real \<Rightarrow> bool
     \<Rightarrow> BasicBlockPreAct list" where
  "stage_of cw nw nb in_chan out_chan bnum stride drop_rate pre =
     block_of cw nw nb in_chan out_chan drop_rate stride pre #
     replicate (nat (bnum - 1)) (block_of cw nw nb out_chan out_chan drop_rate 1 False)"

definition backbone_of :: "int \<Rightarrow> int \<Rightarrow> real \<Rightarrow> WideResnetBackbone" where
  "backbone_of k n d =
     \<lparr>bb_k = k, bb_n = n,
      bb_conv1 = Conv2d 3 16 (3, 3) 1 1 Kaiming_normal None,
      layer1 = stage_of Kaiming_normal (Constant 1) (Constant 0)
                 16 (16 * k) ((n - 4) div 6) 1 d True,
      layer2 = stage_of Kaiming_normal (Constant 1) (Constant 0)
                 (16 * k) (32 * k) ((n - 4) div 6) 2 d False,
      layer3 = stage_of Kaiming_normal (Constant 1) (Constant 0)
                 (32 * k) (64 * k) ((n - 4) div 6) 2 d False,
      bn_last = BatchNorm2d (64 * k) (1 / 1000) (Constant 1) (Constant 0),
      relu_last = LeakyReLU True (1 / 10)\<rparr>"

text \<open>
  The configuration of a block, read off its first convolution: input channels, output
  channels and stride.
\<close>

fun conv_config :: "layer \<Rightarrow> (int \<times> int \<times> int) option" where
  "conv_config (Conv2d i oc ks s p w b) = Some (i, oc, s)"
| "conv_config l = None"

definition block_config :: "BasicBlockPreAct \<Rightarrow> (int \<times> int \<times> int) option" where
  "block_config b = conv_config (conv1 b)"

section \<open>Construction\<close>

lemma bind_Inr_iff: "bind m f = Inr y \<longleftrightarrow> (\<exists>v. m = Inr v \<and> f v = Inr y)"
  by (cases m) auto

lemma BasicBlockPreAct_init_iff:
  "BasicBlockPreAct_init i oc d s pre = Inr b \<longleftrightarrow>
     0 \<le> i \<and> 0 \<le> oc \<and> 0 \<le> d \<and> d \<le> 1 \<and>
     b = block_of Reset_parameters Reset_parameters Reset_parameters i oc d s pre"
  by (auto simp: BasicBlockPreAct_init_def block_of_def nn_BatchNorm2d_def nn_Conv2d_def
      nn_Dropout_def)

lemma init_weight_block_iff:
  "0 \<le> oc \<Longrightarrow> init_weight_block (block_of cw nw nb i oc d s pre) = Inr b' \<longleftrightarrow>
     0 < oc \<and> b' = block_of Kaiming_normal (Constant 1) (Constant 0) i oc d s pre"
  by (auto simp: init_weight_block_def block_of_def py_truediv_def math_sqrt_def
      kaiming_normal_inplace_def fill_inplace_def zero_inplace_def)

lemma append_blocks_iff:
  "append_blocks m oc d layers = Inr bs \<longleftrightarrow>
     (m = 0 \<or> (0 \<le> oc \<and> 0 \<le> d \<and> d \<le> 1)) \<and>
     bs = layers @ replicate m
            (block_of Reset_parameters Reset_parameters Reset_parameters oc oc d 1 False)"
proof (induction m arbitrary: layers)
  case 0
  then show ?case by auto
next
  case (Suc m)
  show ?case
    by (auto simp: bind_Inr_iff BasicBlockPreAct_init_iff Suc replicate_app_Cons_same)
qed

lemma create_layer_iff:
  "create_layer i oc bnum s d pre = Inr bs \<longleftrightarrow>
     0 \<le> i \<and> 0 \<le> oc \<and> 0 \<le> d \<and> d \<le> 1 \<and>
     bs = stage_of Reset_parameters Reset_parameters Reset_parameters i oc bnum s d pre"
  by (auto simp: create_layer_def bind_Inr_iff BasicBlockPreAct_init_iff append_blocks_iff
      stage_of_def)

lemma init_weight_blocks_replicate_iff:
  "0 \<le> oc \<Longrightarrow>
   init_weight_blocks (replicate m (block_of cw nw nb i oc d s pre)) = Inr bs \<longleftrightarrow>
     (m = 0 \<or> 0 < oc) \<and>
     bs = replicate m (block_of Kaiming_normal (Constant 1) (Constant 0) i oc d s pre)"
proof (induction m arbitrary: bs)
  case 0
  then show ?case by auto
next
  case (Suc m)
  then show ?case
    by (auto simp: bind_Inr_iff init_weight_block_iff)
qed

lemma init_weight_stage_iff:
  "0 \<le> oc \<Longrightarrow> init_weight_blocks (stage_of cw nw nb i oc bnum s d pre) = Inr bs \<longleftrightarrow>
     0 < oc \<and> bs = stage_of Kaiming_normal (Constant 1) (Constant 0) i oc bnum s d pre"
  by (auto simp: stage_of_def bind_Inr_iff init_weight_block_iff
      init_weight_blocks_replicate_iff)

lemma n_layers_eq:
  "[16] @ map (\<lambda>i. k * 16 * 2 ^ i) [0..<3] = [16, 16 * k, 32 * k, 64 * (k::int)]"
  by (simp add: upt_rec)

lemma WideResnetBackbone_init_weight_iff:
  "0 \<le> k \<Longrightarrow>
   WideResnetBackbone_init_weight
     \<lparr>bb_k = k, bb_n = n, bb_conv1 = Conv2d 3 16 (3, 3) 1 1 Reset_parameters None,
      layer1 = stage_of Reset_parameters Reset_parameters Reset_parameters
                 16 (16 * k) m 1 d True,
      layer2 = stage_of Reset_parameters Reset_parameters Reset_parameters
                 (16 * k) (32 * k) m 2 d False,
      layer3 = stage_of Reset_parameters Reset_parameters Reset_parameters
                 (32 * k) (64 * k) m 2 d False,
      bn_last = BatchNorm2d (64 * k) (1 / 1000) Reset_parameters Reset_parameters,
      relu_last = LeakyReLU True (1 / 10)\<rparr> = Inr bb \<longleftrightarrow>
   0 < k \<and>
   bb = \<lparr>bb_k = k, bb_n = n,
      bb_conv1 = Conv2d 3 16 (3, 3) 1 1 Kaiming_normal None,
      layer1 = stage_of Kaiming_normal (Constant 1) (Constant 0) 16 (16 * k) m 1 d True,
      layer2 = stage_of Kaiming_normal (Constant 1) (Constant 0)
                 (16 * k) (32 * k) m 2 d False,
      layer3 = stage_of Kaiming_normal (Constant 1) (Constant 0)
                 (32 * k) (64 * k) m 2 d False,
      bn_last = BatchNorm2d (64 * k) (1 / 1000) (Constant 1) (Constant 0),
      relu_last = LeakyReLU True (1 / 10)\<rparr>"
  by (auto simp: WideResnetBackbone_init_weight_def bind_Inr_iff init_weight_stage_iff
      py_truediv_def math_sqrt_def kaiming_normal_inplace_def fill_inplace_def
      zero_inplace_def)

text \<open>
  The constructor of the backbone returns a backbone exactly when the depth passes the
  assertion, the width multiplier is positive and the dropout rate is a probability,
  and then it returns \<open>backbone_of k n d\<close>.
\<close>

lemma WideResnetBackbone_init_iff:
  "WideResnetBackbone_init k n d = Inr bb \<longleftrightarrow>
     (n - 4) mod 6 = 0 \<and> 0 < k \<and> 0 \<le> d \<and> d \<le> 1 \<and> bb = backbone_of k n d"
proof (cases "(n - 4) mod 6 = 0")
  case False
  then show ?thesis by (simp add: WideResnetBackbone_init_def)
next
  case valid: True
  show ?thesis
  proof (cases "0 \<le> k")
    case False
    then show ?thesis
      by (auto simp: WideResnetBackbone_init_def n_layers_eq Let_def bind_Inr_iff
          create_layer_iff nn_Conv2d_def nn_BatchNorm2d_def)
  next
    case True
    with valid show ?thesis
      unfolding WideResnetBackbone_init_def n_layers_eq Let_def backbone_of_def
      by (auto simp: bind_Inr_iff create_layer_iff nn_Conv2d_def nn_BatchNorm2d_def
          WideResnetBackbone_init_weight_iff)
  qed
qed

lemma WideResnetBackbone_init_invalid:
  "(n - 4) mod 6 \<noteq> 0 \<Longrightarrow> WideResnetBackbone_init k n d = Inl (Error AssertionError [])"
  by (simp add: WideResnetBackbone_init_def)

lemma WideResnet_init_iff:
  "WideResnet_init c k n = Inr m \<longleftrightarrow>
     (n - 4) mod 6 = 0 \<and> 0 < k \<and> 0 \<le> c \<and>
     m = \<lparr>n_layers = n, wrn_k = k, backbone = backbone_of k n 0,
          classifier =
            (if k < 4 then Linear (64 * k) c Reset_parameters (Some Reset_parameters)
             else Sequential
                    [Linear (64 * k) (32 * k) Reset_parameters (Some Reset_parameters),
                     ReLU True,
                     Linear (32 * k) c Reset_parameters (Some Reset_parameters)])\<rparr>"
  by (auto simp: WideResnet_init_def bind_Inr_iff WideResnetBackbone_init_iff nn_Linear_def
      Let_def)

lemma WideResnet_init_invalid:
  "(n - 4) mod 6 \<noteq> 0 \<Longrightarrow> WideResnet_init c k n = Inl (Error AssertionError [])"
  by (simp add: WideResnet_init_def WideResnetBackbone_init_invalid)

text \<open>
  C1 (as the code has it). A depth \<open>n\<close> with \<open>(n - 4) mod 6 \<noteq> 0\<close> makes the
  constructor of the backbone, and so the constructor of WideResnet, raise at once,
  whatever the other arguments are: the \<^verbatim>\<open>AssertionError\<close> of a bare \<^verbatim>\<open>assert\<close>,
  which carries no text. For every depth with \<open>(n - 4) mod 6 = 0\<close>, a positive width
  multiplier and a dropout rate in \<open>[0, 1]\<close>, the backbone is constructed, and so is
  WideResnet for a class count that is not negative.
\<close>

theorem C1_depth_assertion:
  "((n - 4) mod 6 \<noteq> 0 \<longrightarrow>
      WideResnetBackbone_init k n d = Inl (Error AssertionError []) \<and>
      WideResnet_init c k n = Inl (Error AssertionError [])) \<and>
   ((n - 4) mod 6 = 0 \<and> 0 < k \<and> 0 \<le> d \<and> d \<le> 1 \<longrightarrow>
      (\<exists>bb. WideResnetBackbone_init k n d = Inr bb)) \<and>
   ((n - 4) mod 6 = 0 \<and> 0 < k \<and> 0 \<le> c \<longrightarrow> (\<exists>m. WideResnet_init c k n = Inr m))"
  by (simp add: WideResnetBackbone_init_invalid WideResnet_init_invalid
      WideResnetBackbone_init_iff WideResnet_init_iff)

theorem C1_depth_assertion_witness:
  "WideResnetBackbone_init 1 15 0 = Inl (Error AssertionError []) \<and>
   WideResnet_init 10 1 15 = Inl (Error AssertionError []) \<and>
   (\<exists>bb. WideResnetBackbone_init 1 28 0 = Inr bb) \<and>
   (\<exists>m. WideResnet_init 10 1 28 = Inr m)"
  using C1_depth_assertion [of 15 1 0 10] C1_depth_assertion [of 28 1 0 10]
  by simp

text \<open>
  The error raised for the depth 15 has the empty text: it describes nothing.
\<close>

theorem C1_error_has_no_text:
  "map_sum message bb_n (WideResnetBackbone_init 1 15 0) = Inl []"
  by (simp add: WideResnetBackbone_init_def)

section \<open>The stages of the backbone\<close>

lemma App_neq: "App l e \<noteq> e"
  by (induction e) auto

lemma App_App_neq: "App l (App l' e) \<noteq> e"
  by (induction e arbitrary: l l') auto

lemma length_stage_of: "length (stage_of cw nw nb i oc bnum s d pre) = nat (max 1 bnum)"
  by (simp add: stage_of_def)

text \<open>
  C2 (as the code has it). A constructed backbone starts with a convolution from 3 to
  16 channels and has three stages over the widths 16, \<open>16k\<close>, \<open>32k\<close>, \<open>64k\<close>. The
  first block of a stage goes from the stage's input width to its output width with the
  stage's stride (1, 2, 2); every later block keeps the width and has stride 1. A stage
  has \<open>max 1 ((n - 4) div 6)\<close> blocks, since \<^verbatim>\<open>create_layer\<close> builds the first block
  before its loop: that is \<open>(n - 4) div 6\<close> for every depth from 10 on.
\<close>

theorem C2_widths_blocks_strides:
  assumes "WideResnetBackbone_init k n d = Inr bb"
  shows "conv_config (bb_conv1 bb) = Some (3, 16, 1) \<and>
    map block_config (layer1 bb) =
      Some (16, 16 * k, 1) # replicate (nat (max 1 ((n - 4) div 6)) - 1) (Some (16 * k, 16 * k, 1)) \<and>
    map block_config (layer2 bb) =
      Some (16 * k, 32 * k, 2) # replicate (nat (max 1 ((n - 4) div 6)) - 1) (Some (32 * k, 32 * k, 1)) \<and>
    map block_config (layer3 bb) =
      Some (32 * k, 64 * k, 2) # replicate (nat (max 1 ((n - 4) div 6)) - 1) (Some (64 * k, 64 * k, 1)) \<and>
    length (layer1 bb) = nat (max 1 ((n - 4) div 6)) \<and>
    length (layer2 bb) = nat (max 1 ((n - 4) div 6)) \<and>
    length (layer3 bb) = nat (max 1 ((n - 4) div 6)) \<and>
    (10 \<le> n \<longrightarrow> int (length (layer1 bb)) = (n - 4) div 6 \<and>
       int (length (layer2 bb)) = (n - 4) div 6 \<and> int (length (layer3 bb)) = (n - 4) div 6)"
proof -
  from assms have bb: "bb = backbone_of k n d"
    by (simp add: WideResnetBackbone_init_iff)
  have cfg: "map block_config (stage_of cw nw nb i oc bnum s d' pre) =
      Some (i, oc, s) # replicate (nat (max 1 bnum) - 1) (Some (oc, oc, 1))"
    for cw nw nb i oc bnum s d' pre
    by (simp add: stage_of_def block_config_def block_of_def)
  have big: "10 \<le> n \<Longrightarrow> int (nat (max 1 ((n - 4) div 6))) = (n - 4) div 6"
    by simp
  show ?thesis
    unfolding bb backbone_of_def
    using big by (simp add: cfg length_stage_of del: max.absorb1 max.absorb2 max.absorb3 max.absorb4)
qed

theorem C2_widths_blocks_strides_witness:
  "WideResnetBackbone_init 2 28 0 = Inr (backbone_of 2 28 0) \<and>
   map block_config (layer2 (backbone_of 2 28 0)) =
     [Some (32, 64, 2), Some (64, 64, 1), Some (64, 64, 1), Some (64, 64, 1)] \<and>
   length (layer1 (backbone_of 2 28 0)) = 4 \<and>
   length (layer3 (backbone_of 2 28 0)) = 4"
proof -
  have i: "WideResnetBackbone_init 2 28 0 = Inr (backbone_of 2 28 0)"
    by (simp add: WideResnetBackbone_init_iff)
  have m: "nat (max 1 ((28 - 4) div 6)) - 1 = Suc (Suc (Suc 0))" by simp
  from C2_widths_blocks_strides [OF i] i show ?thesis
    unfolding m by simp
qed

text \<open>
  The depth 4 passes the assertion, and each stage of its backbone has one block, not
  \<open>(4 - 4) div 6 = 0\<close>.
\<close>

theorem C2_depth_4_has_one_block:
  "(4 - 4) mod 6 = (0::int) \<and> (4 - 4) div 6 = (0::int) \<and>
   WideResnetBackbone_init 1 4 0 = Inr (backbone_of 1 4 0) \<and>
   length (layer1 (backbone_of 1 4 0)) = 1 \<and>
   length (layer2 (backbone_of 1 4 0)) = 1 \<and>
   length (layer3 (backbone_of 1 4 0)) = 1"
  by (simp add: WideResnetBackbone_init_iff backbone_of_def length_stage_of)

section \<open>The forward pass of a block\<close>

lemma broadcast_rev_same: "broadcast_rev xs xs = Some xs"
  by (induction xs) auto

lemma tensor_add_same:
  "shape a = shape b \<Longrightarrow> tensor_add a b = Inr (Tensor (shape a) (Add (trace a) (trace b)))"
  by (simp add: tensor_add_def broadcast_rev_same)

text \<open>
  Three sizes that are at least 1 (the batch apart) and whose product with the batch
  size is 1 are all 1; so a smaller map with more than one value per channel comes from
  a larger map with more than one value per channel.
\<close>

lemma single_value_iff:
  assumes "1 \<le> (H::int)" "1 \<le> W"
  shows "N * H * W = 1 \<longleftrightarrow> N = 1 \<and> H = 1 \<and> W = 1"
proof
  assume p: "N * H * W = 1"
  have hw: "1 \<le> H * W" using mult_mono [of 1 H 1 W] assms by simp
  from p have "N * (H * W) = 1" by (simp add: mult.assoc)
  then have "N = 1 \<and> H * W = 1" using hw by (auto simp: zmult_eq_1_iff)
  moreover from this assms have "H = 1 \<and> W = 1" by (auto simp: zmult_eq_1_iff)
  ultimately show "N = 1 \<and> H = 1 \<and> W = 1" by simp
qed simp

lemma strided_size_ge1: "1 \<le> (H::int) \<Longrightarrow> 1 \<le> s \<Longrightarrow> 1 \<le> (H - 1) div s + 1"
  by (simp add: pos_imp_zdiv_nonneg_iff)

lemma more_values_before:
  assumes "1 \<le> (H::int)" "1 \<le> W" "1 \<le> s"
    and "N * ((H - 1) div s + 1) * ((W - 1) div s + 1) \<noteq> 1"
  shows "N * H * W \<noteq> 1"
proof
  assume "N * H * W = 1"
  then have "N = 1 \<and> H = 1 \<and> W = 1" using assms(1,2) by (simp add: single_value_iff)
  then have "N * ((H - 1) div s + 1) * ((W - 1) div s + 1) = 1" by simp
  with assms(4) show False by simp
qed

lemma call_block_of:
  assumes "shape x = [N, i, H, W]" "1 \<le> H" "1 \<le> W" "1 \<le> s"
    and "N * ((H - 1) div s + 1) * ((W - 1) div s + 1) \<noteq> 1"
  shows "BasicBlockPreAct_forward (block_of cw nw nb i oc d s pre) x =
     Inr (Tensor [N, oc, (H - 1) div s + 1, (W - 1) div s + 1]
       (let act1 = App (LeakyReLU True (1 / 10)) (App (BatchNorm2d i (1 / 1000) nw nb) (trace x));
            r = App (LeakyReLU True (1 / 10)) (App (BatchNorm2d oc (1 / 1000) nw nb)
                  (App (Conv2d i oc (3, 3) s 1 cw None) act1));
            r' = (if d = 0 then r else App (Dropout d) r);
            src = (if pre then act1 else trace x)
        in Add (if i \<noteq> oc \<or> s \<noteq> 1 then App (Conv2d i oc (1, 1) s 0 cw None) src else src)
               (App (Conv2d oc oc (3, 3) 1 1 cw None) r')))"
proof -
  have a: "0 \<le> (H - 1) div s" "0 \<le> (W - 1) div s"
    using assms by (simp_all add: pos_imp_zdiv_nonneg_iff)
  have b: "N * H * W \<noteq> 1" by (rule more_values_before [OF assms(2-5)])
  obtain sh e where x: "x = Tensor sh e" by (cases x)
  with assms(1) have sh: "sh = [N, i, H, W]" by simp
  show ?thesis
    using assms(2-5) a b
    by (auto simp: x sh BasicBlockPreAct_forward_def block_of_def conv_out_def Let_def
        tensor_add_same)
qed

lemma call_block_of_shape:
  assumes "shape x = [N, i, H, W]" "1 \<le> H" "1 \<le> W" "1 \<le> s"
    and "N * ((H - 1) div s + 1) * ((W - 1) div s + 1) \<noteq> 1"
  shows "\<exists>y. BasicBlockPreAct_forward (block_of cw nw nb i oc d s pre) x = Inr y \<and>
             shape y = [N, oc, (H - 1) div s + 1, (W - 1) div s + 1]"
  using call_block_of [OF assms] by simp

lemma call_blocks_replicate:
  assumes "shape x = [N, c, H, W]" "1 \<le> H" "1 \<le> W" "N * H * W \<noteq> 1"
  shows "\<exists>y. call_blocks (replicate m (block_of cw nw nb c c d 1 False)) x = Inr y \<and>
             shape y = [N, c, H, W]"
  using assms(1)
proof (induction m arbitrary: x)
  case 0
  then show ?case by simp
next
  case (Suc m)
  have one: "(1::int) \<le> 1" by simp
  have v: "N * ((H - 1) div 1 + 1) * ((W - 1) div 1 + 1) \<noteq> 1" using assms(4) by simp
  from call_block_of_shape [OF Suc.prems assms(2,3) one v, of cw nw nb c d False]
  obtain y where y: "BasicBlockPreAct_forward (block_of cw nw nb c c d 1 False) x = Inr y"
    "shape y = [N, c, H, W]" by auto
  from Suc.IH [OF y(2)] y(1) show ?case by simp
qed

lemma call_blocks_stage_of:
  assumes "shape x = [N, i, H, W]" "1 \<le> H" "1 \<le> W" "1 \<le> s"
    and "N * ((H - 1) div s + 1) * ((W - 1) div s + 1) \<noteq> 1"
  shows "\<exists>y. call_blocks (stage_of cw nw nb i oc bnum s d pre) x = Inr y \<and>
             shape y = [N, oc, (H - 1) div s + 1, (W - 1) div s + 1]"
proof -
  from call_block_of_shape [OF assms, of cw nw nb oc d pre]
  obtain y where y: "BasicBlockPreAct_forward (block_of cw nw nb i oc d s pre) x = Inr y"
    "shape y = [N, oc, (H - 1) div s + 1, (W - 1) div s + 1]" by auto
  have "1 \<le> (H - 1) div s + 1" "1 \<le> (W - 1) div s + 1"
    by (rule strided_size_ge1 [OF assms(2,4)], rule strided_size_ge1 [OF assms(3,4)])
  from call_blocks_replicate [OF y(2) this assms(5)] y(1) show ?thesis
    by (simp add: stage_of_def)
qed

text \<open>
  The forward pass of the backbone that the constructor builds, step by step: the first
  convolution, the three stages, the last normalisation and activation.
\<close>

lemma backbone_of_forward:
  assumes "shape x = [N, 3, H, W]" "1 \<le> H" "1 \<le> W"
    and "N * ((H - 1) div 4 + 1) * ((W - 1) div 4 + 1) \<noteq> 1"
  shows "\<exists>feat0 feat1 feat2 feat3.
     call_layer (bb_conv1 (backbone_of k n d)) x = Inr feat0 \<and>
     feat0 = Tensor [N, 16, H, W] (App (Conv2d 3 16 (3, 3) 1 1 Kaiming_normal None) (trace x)) \<and>
     call_blocks (layer1 (backbone_of k n d)) feat0 = Inr feat1 \<and>
     shape feat1 = [N, 16 * k, H, W] \<and>
     call_blocks (layer2 (backbone_of k n d)) feat1 = Inr feat2 \<and>
     shape feat2 = [N, 32 * k, (H - 1) div 2 + 1, (W - 1) div 2 + 1] \<and>
     call_blocks (layer3 (backbone_of k n d)) feat2 = Inr feat3 \<and>
     shape feat3 = [N, 64 * k, (H - 1) div 4 + 1, (W - 1) div 4 + 1] \<and>
     WideResnetBackbone_forward (backbone_of k n d) x =
       Inr (feat2,
            Tensor [N, 64 * k, (H - 1) div 4 + 1, (W - 1) div 4 + 1]
              (App (LeakyReLU True (1 / 10))
                 (App (BatchNorm2d (64 * k) (1 / 1000) (Constant 1) (Constant 0))
                    (trace feat3))))"
proof -
  let ?K = Kaiming_normal and ?A = "Constant 1" and ?B = "Constant 0"
  let ?m = "(n - 4) div 6"
  have two: "(1::int) \<le> 2" and one: "(1::int) \<le> 1" by simp_all
  have p2: "1 \<le> (H - 1) div 2 + 1" "1 \<le> (W - 1) div 2 + 1"
    by (rule strided_size_ge1 [OF assms(2) two], rule strided_size_ge1 [OF assms(3) two])
  have q: "((H - 1) div 2 + 1 - 1) div 2 = (H - 1) div 4"
    "((W - 1) div 2 + 1 - 1) div 2 = (W - 1) div 4"
    by (simp_all add: zdiv_zmult2_eq)
  have v4: "N * (((H - 1) div 2 + 1 - 1) div 2 + 1) * (((W - 1) div 2 + 1 - 1) div 2 + 1) \<noteq> 1"
    unfolding q by (rule assms(4))
  have v2: "N * ((H - 1) div 2 + 1) * ((W - 1) div 2 + 1) \<noteq> 1"
    by (rule more_values_before [OF p2 two v4])
  have v1: "N * H * W \<noteq> 1"
    by (rule more_values_before [OF assms(2,3) two v2])
  have v1': "N * ((H - 1) div 1 + 1) * ((W - 1) div 1 + 1) \<noteq> 1" using v1 by simp
  obtain sh e0 where x: "x = Tensor sh e0" by (cases x)
  with assms(1) have sh: "sh = [N, 3, H, W]" by simp
  define f0 where "f0 = Tensor [N, 16, H, W] (App (Conv2d 3 16 (3, 3) 1 1 ?K None) e0)"
  have c1: "call_layer (Conv2d 3 16 (3, 3) 1 1 ?K None) x = Inr f0"
    using assms(2,3) by (simp add: x sh f0_def conv_out_def)
  have s0: "shape f0 = [N, 16, H, W]" by (simp add: f0_def)
  from call_blocks_stage_of [OF s0 assms(2,3) one v1', of ?K ?A ?B "16 * k" ?m d True]
  obtain f1 where f1: "call_blocks (stage_of ?K ?A ?B 16 (16 * k) ?m 1 d True) f0 = Inr f1"
    "shape f1 = [N, 16 * k, H, W]" by auto
  from call_blocks_stage_of [OF f1(2) assms(2,3) two v2, of ?K ?A ?B "32 * k" ?m d False]
  obtain f2 where f2:
    "call_blocks (stage_of ?K ?A ?B (16 * k) (32 * k) ?m 2 d False) f1 = Inr f2"
    "shape f2 = [N, 32 * k, (H - 1) div 2 + 1, (W - 1) div 2 + 1]" by auto
  from call_blocks_stage_of [OF f2(2) p2 two v4, of ?K ?A ?B "64 * k" ?m d False]
  obtain f3 where f3:
    "call_blocks (stage_of ?K ?A ?B (32 * k) (64 * k) ?m 2 d False) f2 = Inr f3"
    "shape f3 = [N, 64 * k, ((H - 1) div 2 + 1 - 1) div 2 + 1,
                 ((W - 1) div 2 + 1 - 1) div 2 + 1]" by auto
  obtain s3 e3 where t3: "f3 = Tensor s3 e3" by (cases f3)
  with f3(2) q have s3: "s3 = [N, 64 * k, (H - 1) div 4 + 1, (W - 1) div 4 + 1]" by simp
  have fw: "WideResnetBackbone_forward (backbone_of k n d) x =
       Inr (f2,
            Tensor [N, 64 * k, (H - 1) div 4 + 1, (W - 1) div 4 + 1]
              (App (LeakyReLU True (1 / 10))
                 (App (BatchNorm2d (64 * k) (1 / 1000) (Constant 1) (Constant 0))
                    (trace f3))))"
    using c1 f1 f2 f3(1) assms(4)
    by (simp add: WideResnetBackbone_forward_def backbone_of_def t3 s3)
  have sh3: "shape f3 = [N, 64 * k, (H - 1) div 4 + 1, (W - 1) div 4 + 1]"
    by (simp add: t3 s3)
  have c1': "call_layer (bb_conv1 (backbone_of k n d)) x = Inr f0"
    using c1 by (simp add: backbone_of_def)
  have f0': "f0 = Tensor [N, 16, H, W] (App (Conv2d 3 16 (3, 3) 1 1 ?K None) (trace x))"
    by (simp add: f0_def x)
  have l1: "call_blocks (layer1 (backbone_of k n d)) f0 = Inr f1"
    using f1(1) by (simp add: backbone_of_def)
  have l2: "call_blocks (layer2 (backbone_of k n d)) f1 = Inr f2"
    using f2(1) by (simp add: backbone_of_def)
  have l3: "call_blocks (layer3 (backbone_of k n d)) f2 = Inr f3"
    using f3(1) by (simp add: backbone_of_def)
  from c1' f0' l1 f1(2) l2 f2(2) l3 sh3 fw show ?thesis by blast
qed

text \<open>
  C6 (as the code has it). On an input \<open>[N, in_chan, H, W]\<close> that leaves each of its two
  normalisations more than one value per channel, a constructed block returns the sum
  of a shortcut and of the residual branch: normalise, activate, convolve (3x3, the
  block's stride), normalise, activate, dropout when the rate is not 0, convolve (3x3,
  stride 1). The shortcut starts from the block's input, or from the first activation
  when \<^verbatim>\<open>pre_res_act\<close> is set; a 1x1 convolution with the block's stride projects it
  exactly when the channel counts differ or the stride is not 1. So the shortcut is the
  raw input exactly when the channels agree, the stride is 1 and \<^verbatim>\<open>pre_res_act\<close> is
  not set.
\<close>

theorem C6_block_forward:
  assumes "BasicBlockPreAct_init i oc d s pre = Inr b"
    and "shape x = [N, i, H, W]" and "1 \<le> H" and "1 \<le> W" and "1 \<le> s"
    and "N * ((H - 1) div s + 1) * ((W - 1) div s + 1) \<noteq> 1"
  shows "let act1 = App (relu1 b) (App (bn1 b) (trace x));
             r = App (relu2 b) (App (bn2 b) (App (conv1 b) act1));
             residual = App (conv2 b) (case dropout b of None \<Rightarrow> r | Some dl \<Rightarrow> App dl r);
             src = (if pre then act1 else trace x);
             shortcut = (if i = oc \<and> s = 1 then src
                         else App (Conv2d i oc (1, 1) s 0 Reset_parameters None) src)
         in BasicBlockPreAct_forward b x =
              Inr (Tensor [N, oc, (H - 1) div s + 1, (W - 1) div s + 1] (Add shortcut residual)) \<and>
            (shortcut = trace x \<longleftrightarrow> i = oc \<and> s = 1 \<and> \<not> pre) \<and>
            bn1 b = BatchNorm2d i (1 / 1000) Reset_parameters Reset_parameters \<and>
            relu1 b = LeakyReLU True (1 / 10) \<and>
            conv1 b = Conv2d i oc (3, 3) s 1 Reset_parameters None \<and>
            bn2 b = BatchNorm2d oc (1 / 1000) Reset_parameters Reset_parameters \<and>
            relu2 b = LeakyReLU True (1 / 10) \<and>
            dropout b = (if d = 0 then None else Some (Dropout d)) \<and>
            conv2 b = Conv2d oc oc (3, 3) 1 1 Reset_parameters None \<and>
            downsample b = (if i = oc \<and> s = 1 then None
                            else Some (Conv2d i oc (1, 1) s 0 Reset_parameters None)) \<and>
            pre_res_act b = pre"
proof -
  from assms(1) have b: "b = block_of Reset_parameters Reset_parameters Reset_parameters i oc d s pre"
    by (simp add: BasicBlockPreAct_init_iff)
  have f: "BasicBlockPreAct_forward b x = Inr (Tensor [N, oc, (H - 1) div s + 1, (W - 1) div s + 1]
       (let act1 = App (LeakyReLU True (1 / 10))
                     (App (BatchNorm2d i (1 / 1000) Reset_parameters Reset_parameters) (trace x));
            r = App (LeakyReLU True (1 / 10))
                  (App (BatchNorm2d oc (1 / 1000) Reset_parameters Reset_parameters)
                  (App (Conv2d i oc (3, 3) s 1 Reset_parameters None) act1));
            r' = (if d = 0 then r else App (Dropout d) r);
            src = (if pre then act1 else trace x)
        in Add (if i \<noteq> oc \<or> s \<noteq> 1 then App (Conv2d i oc (1, 1) s 0 Reset_parameters None) src
                else src)
               (App (Conv2d oc oc (3, 3) 1 1 Reset_parameters None) r')))"
    unfolding b by (rule call_block_of [OF assms(2-6)])
  show ?thesis
    unfolding f
    by (simp add: b block_of_def Let_def App_neq App_App_neq)
qed

theorem C6_block_forward_witness:
  "BasicBlockPreAct_init 16 32 0 2 False =
     Inr (block_of Reset_parameters Reset_parameters Reset_parameters 16 32 0 2 False) \<and>
   BasicBlockPreAct_forward
     (block_of Reset_parameters Reset_parameters Reset_parameters 16 32 0 2 False)
     (Tensor [2, 16, 8, 8] Input) =
   Inr (Tensor [2, 32, 4, 4]
     (Add (App (Conv2d 16 32 (1, 1) 2 0 Reset_parameters None) Input)
        (App (Conv2d 32 32 (3, 3) 1 1 Reset_parameters None)
          (App (LeakyReLU True (1 / 10))
            (App (BatchNorm2d 32 (1 / 1000) Reset_parameters Reset_parameters)
              (App (Conv2d 16 32 (3, 3) 2 1 Reset_parameters None)
                (App (LeakyReLU True (1 / 10))
                  (App (BatchNorm2d 16 (1 / 1000) Reset_parameters Reset_parameters)
                     Input))))))))"
proof -
  have i: "BasicBlockPreAct_init 16 32 0 2 False =
     Inr (block_of Reset_parameters Reset_parameters Reset_parameters 16 32 0 2 False)"
    by (simp add: BasicBlockPreAct_init_iff)
  from C6_block_forward [OF i, of "Tensor [2, 16, 8, 8] Input" 2 8 8] i
  show ?thesis by (simp add: Let_def)
qed

text \<open>
  A block from 16 to 16 channels with stride 1 and \<^verbatim>\<open>pre_res_act\<close> set (the first
  block of the first stage for \<open>k = 1\<close>): its shortcut is the activated, normalised
  input, not the raw input.
\<close>

theorem C6_shortcut_not_raw_input:
  "BasicBlockPreAct_init 16 16 0 1 True =
     Inr (block_of Reset_parameters Reset_parameters Reset_parameters 16 16 0 1 True) \<and>
   BasicBlockPreAct_forward
     (block_of Reset_parameters Reset_parameters Reset_parameters 16 16 0 1 True)
     (Tensor [2, 16, 8, 8] Input) =
   Inr (Tensor [2, 16, 8, 8]
     (Add (App (LeakyReLU True (1 / 10))
             (App (BatchNorm2d 16 (1 / 1000) Reset_parameters Reset_parameters) Input))
        (App (Conv2d 16 16 (3, 3) 1 1 Reset_parameters None)
          (App (LeakyReLU True (1 / 10))
            (App (BatchNorm2d 16 (1 / 1000) Reset_parameters Reset_parameters)
              (App (Conv2d 16 16 (3, 3) 1 1 Reset_parameters None)
                (App (LeakyReLU True (1 / 10))
                  (App (BatchNorm2d 16 (1 / 1000) Reset_parameters Reset_parameters)
                     Input))))))))"
  by (simp add: BasicBlockPreAct_init_iff call_block_of Let_def)

text \<open>
  On one image of one pixel the first normalisation of a block has a single value per
  channel, and the block raises.
\<close>

lemma block_refuses_single_value:
  "BasicBlockPreAct_forward
     (block_of Reset_parameters Reset_parameters Reset_parameters 16 16 0 1 True)
     (Tensor [1, 16, 1, 1] Input) = Inl norm_single_value_error"
  by (simp add: block_of_def BasicBlockPreAct_forward_def)

section \<open>The forward pass of the backbone\<close>

lemma div4:
  assumes "0 < (H::int)" "4 dvd H"
  shows "(H - 1) div 4 + 1 = H div 4 \<and> (H - 1) div 2 + 1 = H div 2"
proof -
  from assms(2) obtain q where q: "H = 4 * q" by (elim dvdE)
  have a: "(4 * q - 1) div 4 = q - 1"
    by (rule int_div_pos_eq [where r = 3]) simp_all
  have b: "(4 * q - 1) div 2 = 2 * q - 1"
    by (rule int_div_pos_eq [where r = 1]) simp_all
  show ?thesis by (simp add: q a b)
qed

text \<open>
  C7. For a constructed backbone and an input \<open>[N, 3, H, W]\<close> whose height and width
  are positive multiples of 4 and which leaves the last normalisation more than one
  value per channel, \<^verbatim>\<open>forward\<close> returns a pair. Its first component is the output of
  the second stage, run on the output of the first stage, run on the first convolution
  of the input: it has \<open>32k\<close> channels, at half the resolution. Its second component is
  the last activation of the last normalisation of the output of the third stage, run
  on the first component: it has \<open>64k\<close> channels, at a quarter of the resolution. The
  channel counts do not depend on \<open>H\<close> and \<open>W\<close>.
\<close>

theorem C7_backbone_forward:
  assumes "WideResnetBackbone_init k n d = Inr bb"
    and "shape x = [N, 3, H, W]" and "0 < H" and "0 < W" and "4 dvd H" and "4 dvd W"
    and "N * (H div 4) * (W div 4) \<noteq> 1"
  shows "\<exists>feat0 feat1 feat2 feat3 feat4.
           call_layer (bb_conv1 bb) x = Inr feat0 \<and>
           call_blocks (layer1 bb) feat0 = Inr feat1 \<and>
           call_blocks (layer2 bb) feat1 = Inr feat2 \<and>
           call_blocks (layer3 bb) feat2 = Inr feat3 \<and>
           WideResnetBackbone_forward bb x = Inr (feat2, feat4) \<and>
           shape feat2 = [N, 32 * k, H div 2, W div 2] \<and>
           shape feat4 = [N, 64 * k, H div 4, W div 4] \<and>
           trace feat0 = App (bb_conv1 bb) (trace x) \<and>
           trace feat4 = App (relu_last bb) (App (bn_last bb) (trace feat3)) \<and>
           bn_last bb = BatchNorm2d (64 * k) (1 / 1000) (Constant 1) (Constant 0) \<and>
           relu_last bb = LeakyReLU True (1 / 10)"
proof -
  from assms(1) have bb: "bb = backbone_of k n d"
    by (simp add: WideResnetBackbone_init_iff)
  have H: "1 \<le> H" "1 \<le> W" using assms(3,4) by simp_all
  note dH = div4 [OF assms(3,5)] and dW = div4 [OF assms(4,6)]
  have v: "N * ((H - 1) div 4 + 1) * ((W - 1) div 4 + 1) \<noteq> 1"
    using assms(7) dH dW by simp
  from backbone_of_forward [OF assms(2) H v, of k n d]
  obtain feat0 feat1 feat2 feat3 where f:
    "call_layer (bb_conv1 (backbone_of k n d)) x = Inr feat0"
    "feat0 = Tensor [N, 16, H, W] (App (Conv2d 3 16 (3, 3) 1 1 Kaiming_normal None) (trace x))"
    "call_blocks (layer1 (backbone_of k n d)) feat0 = Inr feat1"
    "call_blocks (layer2 (backbone_of k n d)) feat1 = Inr feat2"
    "shape feat2 = [N, 32 * k, (H - 1) div 2 + 1, (W - 1) div 2 + 1]"
    "call_blocks (layer3 (backbone_of k n d)) feat2 = Inr feat3"
    "WideResnetBackbone_forward (backbone_of k n d) x =
       Inr (feat2,
            Tensor [N, 64 * k, (H - 1) div 4 + 1, (W - 1) div 4 + 1]
              (App (LeakyReLU True (1 / 10))
                 (App (BatchNorm2d (64 * k) (1 / 1000) (Constant 1) (Constant 0))
                    (trace feat3))))"
    by blast
  have s2: "shape feat2 = [N, 32 * k, H div 2, W div 2]"
    using f(5) dH dW by simp
  have t0: "trace feat0 = App (bb_conv1 bb) (trace x)"
    by (simp add: f(2) bb backbone_of_def)
  have bl: "bn_last bb = BatchNorm2d (64 * k) (1 / 1000) (Constant 1) (Constant 0)"
    and rl: "relu_last bb = LeakyReLU True (1 / 10)"
    by (simp_all add: bb backbone_of_def)
  let ?f4 = "Tensor [N, 64 * k, H div 4, W div 4]
              (App (LeakyReLU True (1 / 10))
                 (App (BatchNorm2d (64 * k) (1 / 1000) (Constant 1) (Constant 0))
                    (trace feat3)))"
  have fw: "WideResnetBackbone_forward bb x = Inr (feat2, ?f4)"
    using f(7) dH dW by (simp add: bb)
  have s4: "shape ?f4 = [N, 64 * k, H div 4, W div 4]" by simp
  have t4: "trace ?f4 = App (relu_last bb) (App (bn_last bb) (trace feat3))"
    by (simp add: bl rl)
  from f(1,3,4,6) fw s2 s4 t0 t4 bl rl show ?thesis
    unfolding bb [symmetric] by blast
qed

theorem C7_backbone_forward_witness:
  "WideResnetBackbone_init 2 28 0 = Inr (backbone_of 2 28 0) \<and>
   (\<exists>feat0 feat1 feat2 feat3 feat4.
      call_layer (bb_conv1 (backbone_of 2 28 0)) (Tensor [5, 3, 32, 32] Input) = Inr feat0 \<and>
      call_blocks (layer1 (backbone_of 2 28 0)) feat0 = Inr feat1 \<and>
      call_blocks (layer2 (backbone_of 2 28 0)) feat1 = Inr feat2 \<and>
      call_blocks (layer3 (backbone_of 2 28 0)) feat2 = Inr feat3 \<and>
      WideResnetBackbone_forward (backbone_of 2 28 0) (Tensor [5, 3, 32, 32] Input) =
        Inr (feat2, feat4) \<and>
      shape feat2 = [5, 64, 16, 16] \<and>
      shape feat4 = [5, 128, 8, 8] \<and>
      trace feat0 = App (Conv2d 3 16 (3, 3) 1 1 Kaiming_normal None) Input \<and>
      trace feat4 = App (LeakyReLU True (1 / 10))
                      (App (BatchNorm2d 128 (1 / 1000) (Constant 1) (Constant 0))
                         (trace feat3)))"
proof -
  have i: "WideResnetBackbone_init 2 28 0 = Inr (backbone_of 2 28 0)"
    by (simp add: WideResnetBackbone_init_iff)
  let ?x = "Tensor [5, 3, 32, 32] Input"
  have "\<exists>feat0 feat1 feat2 feat3 feat4.
           call_layer (bb_conv1 (backbone_of 2 28 0)) ?x = Inr feat0 \<and>
           call_blocks (layer1 (backbone_of 2 28 0)) feat0 = Inr feat1 \<and>
           call_blocks (layer2 (backbone_of 2 28 0)) feat1 = Inr feat2 \<and>
           call_blocks (layer3 (backbone_of 2 28 0)) feat2 = Inr feat3 \<and>
           WideResnetBackbone_forward (backbone_of 2 28 0) ?x = Inr (feat2, feat4) \<and>
           shape feat2 = [5, 32 * 2, 32 div 2, 32 div 2] \<and>
           shape feat4 = [5, 64 * 2, 32 div 4, 32 div 4] \<and>
           trace feat0 = App (bb_conv1 (backbone_of 2 28 0)) (trace ?x) \<and>
           trace feat4 = App (relu_last (backbone_of 2 28 0))
                           (App (bn_last (backbone_of 2 28 0)) (trace feat3)) \<and>
           bn_last (backbone_of 2 28 0) =
             BatchNorm2d (64 * 2) (1 / 1000) (Constant 1) (Constant 0) \<and>
           relu_last (backbone_of 2 28 0) = LeakyReLU True (1 / 10)"
    by (rule C7_backbone_forward [OF i]) simp_all
  then obtain feat0 feat1 feat2 feat3 feat4 where f:
    "call_layer (bb_conv1 (backbone_of 2 28 0)) ?x = Inr feat0"
    "call_blocks (layer1 (backbone_of 2 28 0)) feat0 = Inr feat1"
    "call_blocks (layer2 (backbone_of 2 28 0)) feat1 = Inr feat2"
    "call_blocks (layer3 (backbone_of 2 28 0)) feat2 = Inr feat3"
    "WideResnetBackbone_forward (backbone_of 2 28 0) ?x = Inr (feat2, feat4)"
    and g: "shape feat2 = [5, 32 * 2, 32 div 2, 32 div 2]"
    "shape feat4 = [5, 64 * 2, 32 div 4, 32 div 4]"
    "trace feat0 = App (bb_conv1 (backbone_of 2 28 0)) (trace ?x)"
    "trace feat4 = App (relu_last (backbone_of 2 28 0))
                           (App (bn_last (backbone_of 2 28 0)) (trace feat3))"
    "bn_last (backbone_of 2 28 0) = BatchNorm2d (64 * 2) (1 / 1000) (Constant 1) (Constant 0)"
    "relu_last (backbone_of 2 28 0) = LeakyReLU True (1 / 10)"
    by blast
  have s2: "shape feat2 = [5, 64, 16, 16]" and s4: "shape feat4 = [5, 128, 8, 8]"
    using g(1,2) by simp_all
  have t0: "trace feat0 = App (Conv2d 3 16 (3, 3) 1 1 Kaiming_normal None) Input"
    using g(3) by (simp add: backbone_of_def)
  have t4: "trace feat4 = App (LeakyReLU True (1 / 10))
                      (App (BatchNorm2d 128 (1 / 1000) (Constant 1) (Constant 0))
                         (trace feat3))"
    using g(4,5,6) by simp
  from i f s2 s4 t0 t4 show ?thesis by blast
qed

text \<open>
  For the depth 10 and one image of 4 by 4 pixels, the third stage is left with a single
  value per channel, and the forward pass raises.
\<close>

lemma backbone_refuses_single_value:
  "WideResnetBackbone_init 1 10 0 = Inr (backbone_of 1 10 0) \<and>
   WideResnetBackbone_forward (backbone_of 1 10 0) (Tensor [1, 3, 4, 4] Input) =
     Inl norm_single_value_error"
  by (simp add: WideResnetBackbone_init_iff WideResnetBackbone_forward_def backbone_of_def
      stage_of_def block_of_def BasicBlockPreAct_forward_def conv_out_def tensor_add_def)

section \<open>The pre-activation shortcut\<close>

lemma filter_replicate_False: "filter pre_res_act (replicate m (block_of cw nw nb i oc d s False)) = []"
  by (simp add: block_of_def)

text \<open>
  C8. In a constructed backbone \<^verbatim>\<open>pre_res_act\<close> is set in the first block of the first
  stage and in no other block of any stage, so in exactly one block. On that block, for
  an input with more than one value per channel, the shortcut (projected when the block
  has a projection) starts from the first activation of the normalised input, not from
  the input.
\<close>

theorem C8_pre_res_act:
  assumes "WideResnetBackbone_init k n d = Inr bb"
  shows "map pre_res_act (layer1 bb) = True # replicate (length (layer1 bb) - 1) False \<and>
    map pre_res_act (layer2 bb) = replicate (length (layer2 bb)) False \<and>
    map pre_res_act (layer3 bb) = replicate (length (layer3 bb)) False \<and>
    length (filter pre_res_act (layer1 bb @ layer2 bb @ layer3 bb)) = 1 \<and>
    (\<forall>x N H W. shape x = [N, 16, H, W] \<and> 1 \<le> H \<and> 1 \<le> W \<and> N * H * W \<noteq> 1 \<longrightarrow>
       (\<exists>residual.
          BasicBlockPreAct_forward (hd (layer1 bb)) x =
            Inr (Tensor [N, 16 * k, H, W]
              (Add (let act1 = App (relu1 (hd (layer1 bb))) (App (bn1 (hd (layer1 bb))) (trace x))
                    in case downsample (hd (layer1 bb)) of
                         None \<Rightarrow> act1 | Some p \<Rightarrow> App p act1)
                 residual))))"
proof -
  from assms have bb: "bb = backbone_of k n d"
    by (simp add: WideResnetBackbone_init_iff)
  have pre: "map pre_res_act (stage_of cw nw nb i oc bnum s d' p) =
      p # replicate (length (stage_of cw nw nb i oc bnum s d' p) - 1) False"
    for cw nw nb i oc bnum s d' p
    by (simp add: stage_of_def block_of_def)
  have flt: "filter pre_res_act (stage_of cw nw nb i oc bnum s d' p) =
      (if p then [block_of cw nw nb i oc d' s p] else [])"
    for cw nw nb i oc bnum s d' p
    by (simp add: stage_of_def filter_replicate_False) (simp add: block_of_def)
  have l23: "p # replicate (length (stage_of cw nw nb i oc bnum s d' p) - 1) p =
      replicate (length (stage_of cw nw nb i oc bnum s d' p)) p"
    for cw nw nb i oc bnum s d' and p :: bool
    by (simp add: stage_of_def)
  have fwd: "\<exists>residual.
          BasicBlockPreAct_forward (hd (layer1 bb)) x =
            Inr (Tensor [N, 16 * k, H, W]
              (Add (let act1 = App (relu1 (hd (layer1 bb))) (App (bn1 (hd (layer1 bb))) (trace x))
                    in case downsample (hd (layer1 bb)) of
                         None \<Rightarrow> act1 | Some p \<Rightarrow> App p act1)
                 residual))"
    if "shape x = [N, 16, H, W]" "1 \<le> H" "1 \<le> W" "N * H * W \<noteq> 1" for x N H W
  proof -
    have hd: "hd (layer1 bb) =
        block_of Kaiming_normal (Constant 1) (Constant 0) 16 (16 * k) d 1 True"
      by (simp add: bb backbone_of_def stage_of_def)
    have one: "(1::int) \<le> 1" by simp
    have v: "N * ((H - 1) div 1 + 1) * ((W - 1) div 1 + 1) \<noteq> 1" using that(4) by simp
    show ?thesis
      unfolding hd call_block_of [OF that(1-3) one v]
      by (simp add: block_of_def Let_def)
  qed
  have a: "map pre_res_act (layer1 bb) = True # replicate (length (layer1 bb) - 1) False"
    by (simp only: bb backbone_of_def WideResnetBackbone.simps pre)
  have b: "map pre_res_act (layer2 bb) = replicate (length (layer2 bb)) False"
    by (simp only: bb backbone_of_def WideResnetBackbone.simps pre l23)
  have c: "map pre_res_act (layer3 bb) = replicate (length (layer3 bb)) False"
    by (simp only: bb backbone_of_def WideResnetBackbone.simps pre l23)
  have e: "length (filter pre_res_act (layer1 bb @ layer2 bb @ layer3 bb)) = 1"
    by (simp add: bb backbone_of_def flt)
  from a b c e fwd show ?thesis by blast
qed

theorem C8_pre_res_act_witness:
  "WideResnetBackbone_init 1 28 0 = Inr (backbone_of 1 28 0) \<and>
   map pre_res_act (layer1 (backbone_of 1 28 0)) = [True, False, False, False] \<and>
   map pre_res_act (layer2 (backbone_of 1 28 0)) = [False, False, False, False] \<and>
   length (filter pre_res_act
     (layer1 (backbone_of 1 28 0) @ layer2 (backbone_of 1 28 0) @
      layer3 (backbone_of 1 28 0))) = 1 \<and>
   (\<exists>residual.
      BasicBlockPreAct_forward (hd (layer1 (backbone_of 1 28 0))) (Tensor [2, 16, 8, 8] Input) =
        Inr (Tensor [2, 16, 8, 8]
          (Add (App (LeakyReLU True (1 / 10))
                  (App (BatchNorm2d 16 (1 / 1000) (Constant 1) (Constant 0)) Input))
             residual)))"
proof -
  have i: "WideResnetBackbone_init 1 28 0 = Inr (backbone_of 1 28 0)"
    by (simp add: WideResnetBackbone_init_iff)
  have len: "length (layer1 (backbone_of 1 28 0)) = 4" "length (layer2 (backbone_of 1 28 0)) = 4"
    by (simp_all add: backbone_of_def length_stage_of)
  have hd: "hd (layer1 (backbone_of 1 28 0)) =
      block_of Kaiming_normal (Constant 1) (Constant 0) 16 16 0 1 True"
    by (simp add: backbone_of_def stage_of_def)
  note c8 = C8_pre_res_act [OF i]
  from c8 have all: "\<forall>x N H W. shape x = [N, 16, H, W] \<and> 1 \<le> H \<and> 1 \<le> W \<and>
         N * H * W \<noteq> 1 \<longrightarrow>
       (\<exists>residual.
          BasicBlockPreAct_forward (hd (layer1 (backbone_of 1 28 0))) x =
            Inr (Tensor [N, 16 * 1, H, W]
              (Add (let act1 = App (relu1 (hd (layer1 (backbone_of 1 28 0))))
                                 (App (bn1 (hd (layer1 (backbone_of 1 28 0)))) (trace x))
                    in case downsample (hd (layer1 (backbone_of 1 28 0))) of
                         None \<Rightarrow> act1 | Some p \<Rightarrow> App p act1)
                 residual)))"
    by (elim conjE)
  have f: "\<exists>residual.
      BasicBlockPreAct_forward (hd (layer1 (backbone_of 1 28 0))) (Tensor [2, 16, 8, 8] Input) =
        Inr (Tensor [2, 16 * 1, 8, 8]
          (Add (let act1 = App (relu1 (hd (layer1 (backbone_of 1 28 0))))
                             (App (bn1 (hd (layer1 (backbone_of 1 28 0))))
                                (trace (Tensor [2, 16, 8, 8] Input)))
                in case downsample (hd (layer1 (backbone_of 1 28 0))) of
                     None \<Rightarrow> act1 | Some p \<Rightarrow> App p act1)
             residual))"
    by (rule all [rule_format]) simp
  have g: "\<exists>residual.
      BasicBlockPreAct_forward (hd (layer1 (backbone_of 1 28 0))) (Tensor [2, 16, 8, 8] Input) =
        Inr (Tensor [2, 16, 8, 8]
          (Add (App (LeakyReLU True (1 / 10))
                  (App (BatchNorm2d 16 (1 / 1000) (Constant 1) (Constant 0)) Input))
             residual))"
    using f unfolding hd by (simp add: block_of_def Let_def)
  from c8 len have m: "map pre_res_act (layer1 (backbone_of 1 28 0)) = [True, False, False, False]"
    "map pre_res_act (layer2 (backbone_of 1 28 0)) = [False, False, False, False]"
    by (simp_all add: numeral_eq_Suc)
  from c8 have n: "length (filter pre_res_act
     (layer1 (backbone_of 1 28 0) @ layer2 (backbone_of 1 28 0) @
      layer3 (backbone_of 1 28 0))) = 1" by blast
  from i m n g show ?thesis by blast
qed

section \<open>The classification head\<close>

lemma WideResnet_forward_of:
  assumes "shape x = [N, 3, H, W]" "1 \<le> H" "1 \<le> W"
    and "N * ((H - 1) div 4 + 1) * ((W - 1) div 4 + 1) \<noteq> 1"
  shows "\<exists>feat2 feat4.
     WideResnetBackbone_forward (backbone_of k n d) x = Inr (feat2, feat4) \<and>
     shape feat4 = [N, 64 * k, (H - 1) div 4 + 1, (W - 1) div 4 + 1] \<and>
     WideResnet_forward
       \<lparr>n_layers = n, wrn_k = k, backbone = backbone_of k n d, classifier = cl\<rparr> x =
       call_layer cl (Tensor [N, 64 * k] (Mean [2, 3] (trace feat4)))"
proof -
  from backbone_of_forward [OF assms, of k n d]
  obtain feat2 feat3 where f: "WideResnetBackbone_forward (backbone_of k n d) x =
           Inr (feat2,
                Tensor [N, 64 * k, (H - 1) div 4 + 1, (W - 1) div 4 + 1]
                  (App (LeakyReLU True (1 / 10))
                     (App (BatchNorm2d (64 * k) (1 / 1000) (Constant 1) (Constant 0))
                        (trace feat3))))"
    by blast
  show ?thesis
    by (simp add: f WideResnet_forward_def torch_mean_2_3_def)
qed

text \<open>
  C5. The classifier of a constructed WideResnet is one linear layer from \<open>64k\<close> features
  to the classes when \<open>k < 4\<close>, and otherwise a linear layer from \<open>64k\<close> to \<open>32k\<close>, a
  ReLU and a linear layer from \<open>32k\<close> to the classes. On every input \<open>[N, 3, H, W]\<close> with
  \<open>H, W \<ge> 1\<close> that leaves the last normalisation of the backbone more than one value
  per channel, the forward pass returns logits of shape \<open>[N, n_classes]\<close>: the
  classifier applied to the mean over the axes 2 and 3 of the final feature map of the
  backbone.
\<close>

theorem C5_classification_head:
  assumes "WideResnet_init c k n = Inr m"
    and "shape x = [N, 3, H, W]" and "1 \<le> H" and "1 \<le> W"
    and "N * ((H - 1) div 4 + 1) * ((W - 1) div 4 + 1) \<noteq> 1"
  shows "classifier m =
      (if k < 4 then Linear (64 * k) c Reset_parameters (Some Reset_parameters)
       else Sequential [Linear (64 * k) (32 * k) Reset_parameters (Some Reset_parameters),
                        ReLU True,
                        Linear (32 * k) c Reset_parameters (Some Reset_parameters)]) \<and>
    (\<exists>feat2 feat4.
       WideResnetBackbone_forward (backbone m) x = Inr (feat2, feat4) \<and>
       WideResnet_forward m x =
         Inr (Tensor [N, c]
           (if k < 4
            then App (Linear (64 * k) c Reset_parameters (Some Reset_parameters))
                   (Mean [2, 3] (trace feat4))
            else App (Linear (32 * k) c Reset_parameters (Some Reset_parameters))
                   (App (ReLU True)
                      (App (Linear (64 * k) (32 * k) Reset_parameters (Some Reset_parameters))
                         (Mean [2, 3] (trace feat4)))))))"
proof -
  let ?cl = "if k < 4 then Linear (64 * k) c Reset_parameters (Some Reset_parameters)
       else Sequential [Linear (64 * k) (32 * k) Reset_parameters (Some Reset_parameters),
                        ReLU True,
                        Linear (32 * k) c Reset_parameters (Some Reset_parameters)]"
  from assms(1) have m: "m = \<lparr>n_layers = n, wrn_k = k, backbone = backbone_of k n 0,
      classifier = ?cl\<rparr>"
    by (simp add: WideResnet_init_iff)
  from WideResnet_forward_of [OF assms(2-5), of k n 0 ?cl]
  obtain feat2 feat4 where f:
    "WideResnetBackbone_forward (backbone_of k n 0) x = Inr (feat2, feat4)"
    "WideResnet_forward
       \<lparr>n_layers = n, wrn_k = k, backbone = backbone_of k n 0, classifier = ?cl\<rparr> x =
       call_layer ?cl (Tensor [N, 64 * k] (Mean [2, 3] (trace feat4)))"
    by blast
  have cl: "classifier m = ?cl" by (simp add: m)
  have b: "backbone m = backbone_of k n 0" by (simp add: m)
  show ?thesis
    unfolding cl b using f(1) unfolding m f(2) by simp
qed

theorem C5_classification_head_witness:
  "(\<exists>m feat2 feat4. WideResnet_init 10 2 28 = Inr m \<and>
      classifier m = Linear 128 10 Reset_parameters (Some Reset_parameters) \<and>
      WideResnetBackbone_forward (backbone m) (Tensor [5, 3, 32, 32] Input) = Inr (feat2, feat4) \<and>
      WideResnet_forward m (Tensor [5, 3, 32, 32] Input) =
        Inr (Tensor [5, 10]
          (App (Linear 128 10 Reset_parameters (Some Reset_parameters))
             (Mean [2, 3] (trace feat4))))) \<and>
   (\<exists>m feat2 feat4. WideResnet_init 10 4 28 = Inr m \<and>
      classifier m = Sequential [Linear 256 128 Reset_parameters (Some Reset_parameters),
                        ReLU True,
                        Linear 128 10 Reset_parameters (Some Reset_parameters)] \<and>
      WideResnetBackbone_forward (backbone m) (Tensor [5, 3, 32, 32] Input) = Inr (feat2, feat4) \<and>
      WideResnet_forward m (Tensor [5, 3, 32, 32] Input) =
        Inr (Tensor [5, 10]
          (App (Linear 128 10 Reset_parameters (Some Reset_parameters))
             (App (ReLU True)
               (App (Linear 256 128 Reset_parameters (Some Reset_parameters))
                 (Mean [2, 3] (trace feat4)))))))"
proof -
  obtain m2 where m2: "WideResnet_init 10 2 28 = Inr m2"
    by (simp add: WideResnet_init_iff)
  obtain m4 where m4: "WideResnet_init 10 4 28 = Inr m4"
    by (simp add: WideResnet_init_iff)
  from C5_classification_head [OF m2, of "Tensor [5, 3, 32, 32] Input" 5 32 32]
    C5_classification_head [OF m4, of "Tensor [5, 3, 32, 32] Input" 5 32 32]
  show ?thesis
    unfolding m2 m4 by simp
qed

section \<open>Constructing the embedding-head models\<close>

lemma ResNet50WithEmbeddingHead_init_iff:
  "ResNet50WithEmbeddingHead_init h c e p = Inr (m, h') \<longleftrightarrow>
     0 \<le> c \<and> 0 \<le> e \<and>
     m = \<lparr>num_ftrs = 2048, fc_classes = length h + 1, fc_emb = length h + 2,
          model_resnet = length h\<rparr> \<and>
     h' = h @ [ResNet_obj \<lparr>arch = ResNet50, fc = Identity\<rparr>,
               Layer_obj (Linear 2048 c Reset_parameters (Some Reset_parameters)),
               Layer_obj (Linear 2048 e Reset_parameters (Some Reset_parameters))]"
  by (auto simp: ResNet50WithEmbeddingHead_init_def models_resnet50_def zoo_resnet_def
      alloc_def Let_def nn_Linear_def bind_Inr_iff)

lemma ResNet18WithEmbeddingHead_init_iff:
  "ResNet18WithEmbeddingHead_init h c e p = Inr (m, h') \<longleftrightarrow>
     0 \<le> c \<and> 0 \<le> e \<and>
     m = \<lparr>num_ftrs = 512, fc_classes = length h + 1, fc_emb = length h + 2,
          model_resnet = length h\<rparr> \<and>
     h' = h @ [ResNet_obj \<lparr>arch = ResNet18, fc = Identity\<rparr>,
               Layer_obj (Linear 512 c Reset_parameters (Some Reset_parameters)),
               Layer_obj (Sequential
                 [Linear 512 2048 Reset_parameters (Some Reset_parameters), ReLU True,
                  Linear 2048 e Reset_parameters (Some Reset_parameters)])]"
  by (auto simp: ResNet18WithEmbeddingHead_init_def models_resnet18_def zoo_resnet_def
      alloc_def Let_def nn_Linear_def bind_Inr_iff)

lemma WideResnetWithEmbeddingHead_init_iff:
  "WideResnetWithEmbeddingHead_init h c k n e = Inr (m, h') \<longleftrightarrow>
     (n - 4) mod 6 = 0 \<and> 0 < k \<and> k < 4 \<and> 0 \<le> c \<and> 0 \<le> e \<and>
     m = \<lparr>num_ftrs = 64 * k, fc_classes = length h + 1, fc_emb = length h + 2,
          model_base = length h, head_k = k\<rparr> \<and>
     h' = h @ [WideResnet_obj \<lparr>n_layers = n, wrn_k = k, backbone = backbone_of k n 0,
                               classifier = Identity\<rparr>,
               Layer_obj (Linear (64 * k) c Reset_parameters (Some Reset_parameters)),
               Layer_obj (Sequential
                 [Linear (64 * k) 2048 Reset_parameters (Some Reset_parameters), ReLU True,
                  Linear 2048 e Reset_parameters (Some Reset_parameters)])]"
  by (auto simp: WideResnetWithEmbeddingHead_init_def WideResnet_init_iff
      alloc_def Let_def nn_Linear_def bind_Inr_iff)

lemma WideResnetWithEmbeddingHead_init_wide:
  "4 \<le> k \<Longrightarrow> (n - 4) mod 6 = 0 \<Longrightarrow> 0 \<le> c \<Longrightarrow>
   WideResnetWithEmbeddingHead_init h c k n e =
     Inl (no_attribute ''Sequential'' ''in_features'')"
proof -
  assume a: "4 \<le> k" "(n - 4) mod 6 = 0" "0 \<le> c"
  then obtain m where m: "WideResnet_init c k n = Inr m" 
    by (simp add: WideResnet_init_iff)
  with a have "classifier m = Sequential [Linear (64 * k) (32 * k) Reset_parameters (Some Reset_parameters),
                     ReLU True,
                     Linear (32 * k) c Reset_parameters (Some Reset_parameters)]"
    by (simp add: WideResnet_init_iff)
  then show ?thesis
    by (simp add: WideResnetWithEmbeddingHead_init_def m alloc_def)
qed

text \<open>
  C10. WideResnetWithEmbeddingHead is constructed only for \<open>k < 4\<close>. For \<open>k \<ge> 4\<close>,
  when the wrapped WideResnet is constructed (the depth passes the assertion and the
  class count is not negative), its classifier is the two-layer \<open>Sequential\<close>, and
  reading \<^verbatim>\<open>in_features\<close> raises the \<^verbatim>\<open>AttributeError\<close> of a \<open>Sequential\<close> that has no
  such attribute. For \<open>0 < k < 4\<close>, such a depth and class and embedding counts that are
  not negative, the model is constructed.
\<close>

theorem C10_wide_embedding_head:
  "(WideResnetWithEmbeddingHead_init h c k n e = Inr r \<longrightarrow> k < 4) \<and>
   (4 \<le> k \<and> (n - 4) mod 6 = 0 \<and> 0 \<le> c \<longrightarrow>
      WideResnetWithEmbeddingHead_init h c k n e =
        Inl (no_attribute ''Sequential'' ''in_features'') \<and>
      (\<exists>m. WideResnet_init c k n = Inr m \<and>
         classifier m =
           Sequential [Linear (64 * k) (32 * k) Reset_parameters (Some Reset_parameters),
                       ReLU True,
                       Linear (32 * k) c Reset_parameters (Some Reset_parameters)])) \<and>
   (0 < k \<and> k < 4 \<and> (n - 4) mod 6 = 0 \<and> 0 \<le> c \<and> 0 \<le> e \<longrightarrow>
      (\<exists>m h'. WideResnetWithEmbeddingHead_init h c k n e = Inr (m, h')))"
proof -
  have a: "WideResnetWithEmbeddingHead_init h c k n e = Inr r \<longrightarrow> k < 4"
    by (cases r) (simp add: WideResnetWithEmbeddingHead_init_iff)
  have b: "4 \<le> k \<and> (n - 4) mod 6 = 0 \<and> 0 \<le> c \<longrightarrow>
      (\<exists>m. WideResnet_init c k n = Inr m \<and>
         classifier m =
           Sequential [Linear (64 * k) (32 * k) Reset_parameters (Some Reset_parameters),
                       ReLU True,
                       Linear (32 * k) c Reset_parameters (Some Reset_parameters)])"
    by (simp add: WideResnet_init_iff)
  have c: "0 < k \<and> k < 4 \<and> (n - 4) mod 6 = 0 \<and> 0 \<le> c \<and> 0 \<le> e \<longrightarrow>
      (\<exists>m h'. WideResnetWithEmbeddingHead_init h c k n e = Inr (m, h'))"
    by (simp add: WideResnetWithEmbeddingHead_init_iff)
  have d: "4 \<le> k \<and> (n - 4) mod 6 = 0 \<and> 0 \<le> c \<longrightarrow>
      WideResnetWithEmbeddingHead_init h c k n e =
        Inl (no_attribute ''Sequential'' ''in_features'')"
    using WideResnetWithEmbeddingHead_init_wide [of k n c h e] by (intro impI) (elim conjE)
  show ?thesis
  proof (intro conjI)
    show "WideResnetWithEmbeddingHead_init h c k n e = Inr r \<longrightarrow> k < 4" by (rule a)
    show "4 \<le> k \<and> (n - 4) mod 6 = 0 \<and> 0 \<le> c \<longrightarrow>
      WideResnetWithEmbeddingHead_init h c k n e =
        Inl (no_attribute ''Sequential'' ''in_features'') \<and>
      (\<exists>m. WideResnet_init c k n = Inr m \<and>
         classifier m =
           Sequential [Linear (64 * k) (32 * k) Reset_parameters (Some Reset_parameters),
                       ReLU True,
                       Linear (32 * k) c Reset_parameters (Some Reset_parameters)])"
      using b d by (intro impI conjI) (erule (1) mp)+
    show "0 < k \<and> k < 4 \<and> (n - 4) mod 6 = 0 \<and> 0 \<le> c \<and> 0 \<le> e \<longrightarrow>
      (\<exists>m h'. WideResnetWithEmbeddingHead_init h c k n e = Inr (m, h'))" by (rule c)
  qed
qed

theorem C10_wide_embedding_head_witness:
  "WideResnetWithEmbeddingHead_init [] 100 4 28 128 =
     Inl (no_attribute ''Sequential'' ''in_features'') \<and>
   (\<exists>m. WideResnet_init 100 4 28 = Inr m \<and>
      classifier m =
        Sequential [Linear 256 128 Reset_parameters (Some Reset_parameters), ReLU True,
                    Linear 128 100 Reset_parameters (Some Reset_parameters)]) \<and>
   (\<exists>m h'. WideResnetWithEmbeddingHead_init [] 100 3 28 128 = Inr (m, h'))"
  using C10_wide_embedding_head [of "[]" 100 4 28 128]
    C10_wide_embedding_head [of "[]" 100 3 28 128]
  by simp

section \<open>The forward pass of the embedding-head models\<close>

lemma nth_store3:
  "(h @ [a, b, c]) ! length h = a"
  "(h @ [a, b, c]) ! Suc (length h) = b"
  "(h @ [a, b, c]) ! Suc (Suc (length h)) = c"
  by (simp_all add: nth_append)

lemma ResNet_forward_Identity:
  assumes "shape x = [N, 3, H, W]" "1 \<le> H" "1 \<le> W"
    and "N * ((H - 1) div 32 + 1) * ((W - 1) div 32 + 1) \<noteq> 1"
  shows "ResNet_forward \<lparr>arch = a, fc = Identity\<rparr> x =
           Inr (Tensor [N, resnet_features a] (Trunk a (trace x)))"
  using assms by (simp add: ResNet_forward_def)

lemma WideResnet_forward_Identity:
  assumes "shape x = [N, 3, H, W]" "1 \<le> H" "1 \<le> W"
    and "N * ((H - 1) div 4 + 1) * ((W - 1) div 4 + 1) \<noteq> 1"
  shows "\<exists>feat2 feat4.
           WideResnetBackbone_forward (backbone_of k n d) x = Inr (feat2, feat4) \<and>
           WideResnet_forward
             \<lparr>n_layers = n, wrn_k = k, backbone = backbone_of k n d, classifier = Identity\<rparr> x =
             Inr (Tensor [N, 64 * k] (Mean [2, 3] (trace feat4)))"
  using WideResnet_forward_of [OF assms, of k n d Identity] by auto

text \<open>
  C4. For each of the three embedding-head classes, the forward pass of a constructed
  model on an input \<open>[N, 3, H, W]\<close> that its feature extractor supports (\<open>H, W \<ge> 1\<close>,
  and more than one value per channel left to the extractor's last normalisations)
  returns a triple. Its third component is what the feature extractor returns on the
  input: the pooled features of the ResNet trunk, or the mean over the axes 2 and 3 of
  the final feature map of the Wide-ResNet backbone. Its first component is the class
  head applied to the pooled features, of shape \<open>[N, num_classes]\<close>; its second is the
  embedding head applied to the pooled features, of shape \<open>[N, emb_dim]\<close>.
\<close>

theorem C4_embedding_forward:
  "(ResNet50WithEmbeddingHead_init h c e p = Inr (m, h') \<and>
    shape x = [N, 3, H, W] \<and> 1 \<le> H \<and> 1 \<le> W \<and>
    N * ((H - 1) div 32 + 1) * ((W - 1) div 32 + 1) \<noteq> 1 \<longrightarrow>
      (\<exists>out1 out2 pooled.
         ResNetWithEmbeddingHead_forward h' m x = Inr (out1, out2, pooled) \<and>
         call_module h' (model_resnet m) x = Inr pooled \<and>
         pooled = Tensor [N, 2048] (Trunk ResNet50 (trace x)) \<and>
         shape out1 = [N, c] \<and> shape out2 = [N, e] \<and> shape pooled = [N, 2048] \<and>
         trace out1 = App (Linear 2048 c Reset_parameters (Some Reset_parameters)) (trace pooled) \<and>
         trace out2 = App (Linear 2048 e Reset_parameters (Some Reset_parameters)) (trace pooled))) \<and>
   (ResNet18WithEmbeddingHead_init h c e p = Inr (m, h') \<and>
    shape x = [N, 3, H, W] \<and> 1 \<le> H \<and> 1 \<le> W \<and>
    N * ((H - 1) div 32 + 1) * ((W - 1) div 32 + 1) \<noteq> 1 \<longrightarrow>
      (\<exists>out1 out2 pooled.
         ResNetWithEmbeddingHead_forward h' m x = Inr (out1, out2, pooled) \<and>
         call_module h' (model_resnet m) x = Inr pooled \<and>
         pooled = Tensor [N, 512] (Trunk ResNet18 (trace x)) \<and>
         shape out1 = [N, c] \<and> shape out2 = [N, e] \<and> shape pooled = [N, 512] \<and>
         trace out1 = App (Linear 512 c Reset_parameters (Some Reset_parameters)) (trace pooled) \<and>
         trace out2 =
           App (Linear 2048 e Reset_parameters (Some Reset_parameters))
             (App (ReLU True)
                (App (Linear 512 2048 Reset_parameters (Some Reset_parameters)) (trace pooled))))) \<and>
   (WideResnetWithEmbeddingHead_init h c k n e = Inr (mw, h') \<and>
    shape x = [N, 3, H, W] \<and> 1 \<le> H \<and> 1 \<le> W \<and>
    N * ((H - 1) div 4 + 1) * ((W - 1) div 4 + 1) \<noteq> 1 \<longrightarrow>
      (\<exists>out1 out2 pooled net feat2 feat4.
         WideResnetWithEmbeddingHead_forward h' mw x = Inr (out1, out2, pooled) \<and>
         call_module h' (model_base mw) x = Inr pooled \<and>
         h' ! model_base mw = WideResnet_obj net \<and> classifier net = Identity \<and>
         WideResnetBackbone_init k n 0 = Inr (backbone net) \<and>
         WideResnetBackbone_forward (backbone net) x = Inr (feat2, feat4) \<and>
         pooled = Tensor [N, 64 * k] (Mean [2, 3] (trace feat4)) \<and>
         shape out1 = [N, c] \<and> shape out2 = [N, e] \<and> shape pooled = [N, 64 * k] \<and>
         trace out1 = App (Linear (64 * k) c Reset_parameters (Some Reset_parameters)) (trace pooled) \<and>
         trace out2 =
           App (Linear 2048 e Reset_parameters (Some Reset_parameters))
             (App (ReLU True)
                (App (Linear (64 * k) 2048 Reset_parameters (Some Reset_parameters))
                   (trace pooled)))))"
proof (intro conjI impI; elim conjE)
  assume i: "ResNet50WithEmbeddingHead_init h c e p = Inr (m, h')"
    and x: "shape x = [N, 3, H, W]" "1 \<le> H" "1 \<le> W"
      "N * ((H - 1) div 32 + 1) * ((W - 1) div 32 + 1) \<noteq> 1"
  show "\<exists>out1 out2 pooled.
         ResNetWithEmbeddingHead_forward h' m x = Inr (out1, out2, pooled) \<and>
         call_module h' (model_resnet m) x = Inr pooled \<and>
         pooled = Tensor [N, 2048] (Trunk ResNet50 (trace x)) \<and>
         shape out1 = [N, c] \<and> shape out2 = [N, e] \<and> shape pooled = [N, 2048] \<and>
         trace out1 = App (Linear 2048 c Reset_parameters (Some Reset_parameters)) (trace pooled) \<and>
         trace out2 = App (Linear 2048 e Reset_parameters (Some Reset_parameters)) (trace pooled)"
    using i
    by (simp add: ResNet50WithEmbeddingHead_init_iff ResNetWithEmbeddingHead_forward_def
        call_module_def nth_store3 ResNet_forward_Identity [OF x])
next
  assume i: "ResNet18WithEmbeddingHead_init h c e p = Inr (m, h')"
    and x: "shape x = [N, 3, H, W]" "1 \<le> H" "1 \<le> W"
      "N * ((H - 1) div 32 + 1) * ((W - 1) div 32 + 1) \<noteq> 1"
  show "\<exists>out1 out2 pooled.
         ResNetWithEmbeddingHead_forward h' m x = Inr (out1, out2, pooled) \<and>
         call_module h' (model_resnet m) x = Inr pooled \<and>
         pooled = Tensor [N, 512] (Trunk ResNet18 (trace x)) \<and>
         shape out1 = [N, c] \<and> shape out2 = [N, e] \<and> shape pooled = [N, 512] \<and>
         trace out1 = App (Linear 512 c Reset_parameters (Some Reset_parameters)) (trace pooled) \<and>
         trace out2 =
           App (Linear 2048 e Reset_parameters (Some Reset_parameters))
             (App (ReLU True)
                (App (Linear 512 2048 Reset_parameters (Some Reset_parameters)) (trace pooled)))"
    using i
    by (simp add: ResNet18WithEmbeddingHead_init_iff ResNetWithEmbeddingHead_forward_def
        call_module_def nth_store3 ResNet_forward_Identity [OF x])
next
  assume i: "WideResnetWithEmbeddingHead_init h c k n e = Inr (mw, h')"
    and x: "shape x = [N, 3, H, W]" "1 \<le> H" "1 \<le> W"
      "N * ((H - 1) div 4 + 1) * ((W - 1) div 4 + 1) \<noteq> 1"
  let ?net = "\<lparr>n_layers = n, wrn_k = k, backbone = backbone_of k n 0, classifier = Identity\<rparr>"
  from WideResnet_forward_Identity [OF x, of k n 0] obtain feat2 feat4 where
    b: "WideResnetBackbone_forward (backbone_of k n 0) x = Inr (feat2, feat4)" and
    f: "WideResnet_forward ?net x = Inr (Tensor [N, 64 * k] (Mean [2, 3] (trace feat4)))"
    by blast
  from i have bi: "WideResnetBackbone_init k n 0 = Inr (backbone_of k n 0)"
    by (simp add: WideResnetWithEmbeddingHead_init_iff WideResnetBackbone_init_iff)
  let ?pooled = "Tensor [N, 64 * k] (Mean [2, 3] (trace feat4))"
  let ?out1 = "Tensor [N, c]
      (App (Linear (64 * k) c Reset_parameters (Some Reset_parameters)) (trace ?pooled))"
  let ?out2 = "Tensor [N, e]
      (App (Linear 2048 e Reset_parameters (Some Reset_parameters))
         (App (ReLU True)
            (App (Linear (64 * k) 2048 Reset_parameters (Some Reset_parameters))
               (trace ?pooled))))"
  have fw: "WideResnetWithEmbeddingHead_forward h' mw x = Inr (?out1, ?out2, ?pooled)"
    and cm: "call_module h' (model_base mw) x = Inr ?pooled"
    and ob: "h' ! model_base mw = WideResnet_obj ?net"
    using i
    by (simp_all add: WideResnetWithEmbeddingHead_init_iff
        WideResnetWithEmbeddingHead_forward_def call_module_def nth_store3 f)
  have cl: "classifier ?net = Identity" and bn: "backbone ?net = backbone_of k n 0"
    by simp_all
  show "\<exists>out1 out2 pooled net feat2 feat4.
         WideResnetWithEmbeddingHead_forward h' mw x = Inr (out1, out2, pooled) \<and>
         call_module h' (model_base mw) x = Inr pooled \<and>
         h' ! model_base mw = WideResnet_obj net \<and> classifier net = Identity \<and>
         WideResnetBackbone_init k n 0 = Inr (backbone net) \<and>
         WideResnetBackbone_forward (backbone net) x = Inr (feat2, feat4) \<and>
         pooled = Tensor [N, 64 * k] (Mean [2, 3] (trace feat4)) \<and>
         shape out1 = [N, c] \<and> shape out2 = [N, e] \<and> shape pooled = [N, 64 * k] \<and>
         trace out1 = App (Linear (64 * k) c Reset_parameters (Some Reset_parameters)) (trace pooled) \<and>
         trace out2 =
           App (Linear 2048 e Reset_parameters (Some Reset_parameters))
             (App (ReLU True)
                (App (Linear (64 * k) 2048 Reset_parameters (Some Reset_parameters))
                   (trace pooled)))"
    apply (rule exI [of _ ?out1], rule exI [of _ ?out2], rule exI [of _ ?pooled])
    apply (rule exI [of _ ?net], rule exI [of _ feat2], rule exI [of _ feat4])
    using fw cm ob bi b by (simp only: cl bn shape.simps trace.simps)
qed

theorem C4_embedding_forward_witness:
  "(\<exists>m h' out1 out2 pooled.
      ResNet50WithEmbeddingHead_init [] 100 300 True = Inr (m, h') \<and>
      ResNetWithEmbeddingHead_forward h' m (Tensor [2, 3, 224, 224] Input) =
        Inr (out1, out2, pooled) \<and>
      pooled = Tensor [2, 2048] (Trunk ResNet50 Input) \<and>
      shape out1 = [2, 100] \<and> shape out2 = [2, 300]) \<and>
   (\<exists>m h' out1 out2 pooled.
      ResNet18WithEmbeddingHead_init [] 100 128 True = Inr (m, h') \<and>
      ResNetWithEmbeddingHead_forward h' m (Tensor [2, 3, 224, 224] Input) =
        Inr (out1, out2, pooled) \<and>
      pooled = Tensor [2, 512] (Trunk ResNet18 Input) \<and>
      shape out1 = [2, 100] \<and> shape out2 = [2, 128]) \<and>
   (\<exists>m h' out1 out2 pooled.
      WideResnetWithEmbeddingHead_init [] 100 3 28 128 = Inr (m, h') \<and>
      WideResnetWithEmbeddingHead_forward h' m (Tensor [2, 3, 224, 224] Input) =
        Inr (out1, out2, pooled) \<and>
      shape out1 = [2, 100] \<and> shape out2 = [2, 128] \<and> shape pooled = [2, 192])"
proof -
  obtain m1 h1 where i1: "ResNet50WithEmbeddingHead_init [] 100 300 True = Inr (m1, h1)"
    by (simp add: ResNet50WithEmbeddingHead_init_iff)
  obtain m2 h2 where i2: "ResNet18WithEmbeddingHead_init [] 100 128 True = Inr (m2, h2)"
    by (simp add: ResNet18WithEmbeddingHead_init_iff)
  obtain m3 h3 where i3: "WideResnetWithEmbeddingHead_init [] 100 3 28 128 = Inr (m3, h3)"
    by (simp add: WideResnetWithEmbeddingHead_init_iff)
  have x: "shape (Tensor [2, 3, 224, 224] Input) = [2, 3, 224, 224]" by simp
  have a: "\<exists>out1 out2 pooled.
      ResNetWithEmbeddingHead_forward h1 m1 (Tensor [2, 3, 224, 224] Input) =
        Inr (out1, out2, pooled) \<and>
      pooled = Tensor [2, 2048] (Trunk ResNet50 Input) \<and>
      shape out1 = [2, 100] \<and> shape out2 = [2, 300]"
    using C4_embedding_forward [where h = "[]" and c = 100 and e = 300 and p = True
        and m = m1 and h' = h1 and x = "Tensor [2, 3, 224, 224] Input"
        and N = 2 and H = 224 and W = 224] i1 x
    by simp blast
  have b: "\<exists>out1 out2 pooled.
      ResNetWithEmbeddingHead_forward h2 m2 (Tensor [2, 3, 224, 224] Input) =
        Inr (out1, out2, pooled) \<and>
      pooled = Tensor [2, 512] (Trunk ResNet18 Input) \<and>
      shape out1 = [2, 100] \<and> shape out2 = [2, 128]"
    using C4_embedding_forward [where h = "[]" and c = 100 and e = 128 and p = True
        and m = m2 and h' = h2 and x = "Tensor [2, 3, 224, 224] Input"
        and N = 2 and H = 224 and W = 224] i2 x
    by simp blast
  have c: "\<exists>out1 out2 pooled.
      WideResnetWithEmbeddingHead_forward h3 m3 (Tensor [2, 3, 224, 224] Input) =
        Inr (out1, out2, pooled) \<and>
      shape out1 = [2, 100] \<and> shape out2 = [2, 128] \<and> shape pooled = [2, 192]"
    using C4_embedding_forward [where h = "[]" and c = 100 and e = 128 and k = 3 and n = 28
        and mw = m3 and h' = h3 and x = "Tensor [2, 3, 224, 224] Input"
        and N = 2 and H = 224 and W = 224] i3 x
    by simp blast
  from i1 i2 i3 a b c show ?thesis by blast
qed

section \<open>adapt\<close>

lemma adapt_iff:
  "adapt h m nc = Inr (m2, h2) \<longleftrightarrow>
     0 \<le> num_ftrs m \<and> 0 \<le> nc \<and> m2 = m\<lparr>fc_classes := length h\<rparr> \<and>
     h2 = h @ [Layer_obj (Linear (num_ftrs m) nc Reset_parameters (Some Reset_parameters))]"
  by (auto simp: adapt_def nn_Linear_def alloc_def bind_Inr_iff)

lemma call_module_append: "r < length h \<Longrightarrow> call_module (h @ hs) r x = call_module h r x"
  by (simp add: call_module_def nth_append)

lemma call_module_new_head:
  assumes "call_module h r pooled = Inr out1" "r < length h" "h ! r = Layer_obj (Linear f c w b)"
  shows "call_module (h @ [Layer_obj (Linear f nc w' b')]) (length h) pooled =
     Inr (Tensor (butlast (shape pooled) @ [nc]) (App (Linear f nc w' b') (trace pooled)))"
  using assms by (simp add: call_module_def split: if_splits)

lemma adapt_forward_ResNet:
  assumes wf: "model_resnet m < length h" "fc_emb m < length h" "fc_classes m < length h"
    "h ! fc_classes m = Layer_obj (Linear (num_ftrs m) c w b)"
    and f: "ResNetWithEmbeddingHead_forward h m x = Inr (out1, out2, pooled)"
  shows "\<exists>out1'. ResNetWithEmbeddingHead_forward
            (h @ [Layer_obj (Linear (num_ftrs m) nc w' b')]) (m\<lparr>fc_classes := length h\<rparr>) x =
            Inr (out1', out2, pooled) \<and>
          shape out1' = butlast (shape pooled) @ [nc]"
proof -
  from f have p: "call_module h (model_resnet m) x = Inr pooled"
    and o1: "call_module h (fc_classes m) pooled = Inr out1"
    and o2: "call_module h (fc_emb m) pooled = Inr out2"
    by (auto simp: ResNetWithEmbeddingHead_forward_def bind_Inr_iff)
  show ?thesis
    by (simp add: ResNetWithEmbeddingHead_forward_def call_module_append wf p o2
        call_module_new_head [OF o1 wf(3,4)])
qed

lemma adapt_forward_WideResnet:
  assumes wf: "model_base m < length h" "fc_emb m < length h" "fc_classes m < length h"
    "h ! fc_classes m = Layer_obj (Linear (num_ftrs m) c w b)"
    and f: "WideResnetWithEmbeddingHead_forward h m x = Inr (out1, out2, pooled)"
  shows "\<exists>out1'. WideResnetWithEmbeddingHead_forward
            (h @ [Layer_obj (Linear (num_ftrs m) nc w' b')]) (m\<lparr>fc_classes := length h\<rparr>) x =
            Inr (out1', out2, pooled) \<and>
          shape out1' = butlast (shape pooled) @ [nc]"
proof -
  from f have p: "call_module h (model_base m) x = Inr pooled"
    and o1: "call_module h (fc_classes m) pooled = Inr out1"
    and o2: "call_module h (fc_emb m) pooled = Inr out2"
    by (auto simp: WideResnetWithEmbeddingHead_forward_def bind_Inr_iff)
  show ?thesis
    by (simp add: WideResnetWithEmbeddingHead_forward_def call_module_append wf p o2
        call_module_new_head [OF o1 wf(3,4)])
qed

lemma ResNet_constructed_wf:
  assumes "ResNet50WithEmbeddingHead_init h0 c e p = Inr (m, h) \<or>
           ResNet18WithEmbeddingHead_init h0 c e p = Inr (m, h)"
  shows "model_resnet m < length h \<and> fc_emb m < length h \<and> fc_classes m < length h \<and>
     h ! fc_classes m = Layer_obj (Linear (num_ftrs m) c Reset_parameters (Some Reset_parameters)) \<and>
     0 \<le> num_ftrs m"
  using assms
  by (auto simp: ResNet50WithEmbeddingHead_init_iff ResNet18WithEmbeddingHead_init_iff nth_store3)

lemma WideResnet_constructed_wf:
  assumes "WideResnetWithEmbeddingHead_init h0 c k n e = Inr (m, h)"
  shows "model_base m < length h \<and> fc_emb m < length h \<and> fc_classes m < length h \<and>
     h ! fc_classes m = Layer_obj (Linear (num_ftrs m) c Reset_parameters (Some Reset_parameters)) \<and>
     0 \<le> num_ftrs m"
  using assms
  by (auto simp: WideResnetWithEmbeddingHead_init_iff nth_store3)

text \<open>
  C3. On a constructed embedding-head model, \<^verbatim>\<open>adapt(nc)\<close> with \<open>nc \<ge> 0\<close> allocates
  one new object, a linear layer from \<^verbatim>\<open>num_ftrs\<close> to \<open>nc\<close>, and binds \<^verbatim>\<open>fc_classes\<close>
  to it. The references to the embedding head and to the feature extractor are the same
  as before, every object that existed before is unchanged, and a forward pass returns
  the same embedding and the same pooled features as before \<^verbatim>\<open>adapt\<close>, with logits
  whose last axis is \<open>nc\<close>.
\<close>

theorem C3_adapt_frame:
  "((ResNet50WithEmbeddingHead_init h0 c e p = Inr (m, h) \<or>
     ResNet18WithEmbeddingHead_init h0 c e p = Inr (m, h)) \<and> 0 \<le> nc \<longrightarrow>
      (\<exists>m2 h2. adapt h m nc = Inr (m2, h2) \<and>
         fc_classes m2 = length h \<and> length h2 = Suc (length h) \<and>
         h2 ! fc_classes m2 =
           Layer_obj (Linear (num_ftrs m) nc Reset_parameters (Some Reset_parameters)) \<and>
         num_ftrs m2 = num_ftrs m \<and> fc_emb m2 = fc_emb m \<and>
         model_resnet m2 = model_resnet m \<and>
         fc_emb m < length h \<and> model_resnet m < length h \<and>
         (\<forall>r. r < length h \<longrightarrow> h2 ! r = h ! r) \<and>
         (\<forall>x out1 out2 pooled.
            ResNetWithEmbeddingHead_forward h m x = Inr (out1, out2, pooled) \<longrightarrow>
            (\<exists>out1'. ResNetWithEmbeddingHead_forward h2 m2 x = Inr (out1', out2, pooled) \<and>
                      shape out1' = butlast (shape pooled) @ [nc])))) \<and>
   (WideResnetWithEmbeddingHead_init h0 c k n e = Inr (mw, hw) \<and> 0 \<le> nc \<longrightarrow>
      (\<exists>m2 h2. adapt hw mw nc = Inr (m2, h2) \<and>
         fc_classes m2 = length hw \<and> length h2 = Suc (length hw) \<and>
         h2 ! fc_classes m2 =
           Layer_obj (Linear (num_ftrs mw) nc Reset_parameters (Some Reset_parameters)) \<and>
         num_ftrs m2 = num_ftrs mw \<and> fc_emb m2 = fc_emb mw \<and>
         model_base m2 = model_base mw \<and> head_k m2 = head_k mw \<and>
         fc_emb mw < length hw \<and> model_base mw < length hw \<and>
         (\<forall>r. r < length hw \<longrightarrow> h2 ! r = hw ! r) \<and>
         (\<forall>x out1 out2 pooled.
            WideResnetWithEmbeddingHead_forward hw mw x = Inr (out1, out2, pooled) \<longrightarrow>
            (\<exists>out1'. WideResnetWithEmbeddingHead_forward h2 m2 x = Inr (out1', out2, pooled) \<and>
                      shape out1' = butlast (shape pooled) @ [nc]))))"
proof (intro conjI impI; elim conjE)
  assume i: "ResNet50WithEmbeddingHead_init h0 c e p = Inr (m, h) \<or>
     ResNet18WithEmbeddingHead_init h0 c e p = Inr (m, h)" and nc: "0 \<le> nc"
  note wf = ResNet_constructed_wf [OF i]
  let ?new = "Layer_obj (Linear (num_ftrs m) nc Reset_parameters (Some Reset_parameters))"
  have a: "adapt h m nc = Inr (m\<lparr>fc_classes := length h\<rparr>, h @ [?new])"
    using wf nc by (simp add: adapt_iff)
  have fwd: "\<exists>out1'. ResNetWithEmbeddingHead_forward (h @ [?new]) (m\<lparr>fc_classes := length h\<rparr>) x =
                Inr (out1', out2, pooled) \<and> shape out1' = butlast (shape pooled) @ [nc]"
    if "ResNetWithEmbeddingHead_forward h m x = Inr (out1, out2, pooled)" for x out1 out2 pooled
    using adapt_forward_ResNet [OF _ _ _ _ that] wf by blast
  show "\<exists>m2 h2. adapt h m nc = Inr (m2, h2) \<and>
         fc_classes m2 = length h \<and> length h2 = Suc (length h) \<and>
         h2 ! fc_classes m2 = ?new \<and>
         num_ftrs m2 = num_ftrs m \<and> fc_emb m2 = fc_emb m \<and>
         model_resnet m2 = model_resnet m \<and>
         fc_emb m < length h \<and> model_resnet m < length h \<and>
         (\<forall>r. r < length h \<longrightarrow> h2 ! r = h ! r) \<and>
         (\<forall>x out1 out2 pooled.
            ResNetWithEmbeddingHead_forward h m x = Inr (out1, out2, pooled) \<longrightarrow>
            (\<exists>out1'. ResNetWithEmbeddingHead_forward h2 m2 x = Inr (out1', out2, pooled) \<and>
                      shape out1' = butlast (shape pooled) @ [nc]))"
    unfolding a using wf fwd by (simp add: nth_append)
next
  assume i: "WideResnetWithEmbeddingHead_init h0 c k n e = Inr (mw, hw)" and nc: "0 \<le> nc"
  note wf = WideResnet_constructed_wf [OF i]
  let ?new = "Layer_obj (Linear (num_ftrs mw) nc Reset_parameters (Some Reset_parameters))"
  have a: "adapt hw mw nc = Inr (mw\<lparr>fc_classes := length hw\<rparr>, hw @ [?new])"
    using wf nc by (simp add: adapt_iff)
  have fwd: "\<exists>out1'. WideResnetWithEmbeddingHead_forward (hw @ [?new]) (mw\<lparr>fc_classes := length hw\<rparr>) x =
                Inr (out1', out2, pooled) \<and> shape out1' = butlast (shape pooled) @ [nc]"
    if "WideResnetWithEmbeddingHead_forward hw mw x = Inr (out1, out2, pooled)" for x out1 out2 pooled
    using adapt_forward_WideResnet [OF _ _ _ _ that] wf by blast
  show "\<exists>m2 h2. adapt hw mw nc = Inr (m2, h2) \<and>
         fc_classes m2 = length hw \<and> length h2 = Suc (length hw) \<and>
         h2 ! fc_classes m2 = ?new \<and>
         num_ftrs m2 = num_ftrs mw \<and> fc_emb m2 = fc_emb mw \<and>
         model_base m2 = model_base mw \<and> head_k m2 = head_k mw \<and>
         fc_emb mw < length hw \<and> model_base mw < length hw \<and>
         (\<forall>r. r < length hw \<longrightarrow> h2 ! r = hw ! r) \<and>
         (\<forall>x out1 out2 pooled.
            WideResnetWithEmbeddingHead_forward hw mw x = Inr (out1, out2, pooled) \<longrightarrow>
            (\<exists>out1'. WideResnetWithEmbeddingHead_forward h2 m2 x = Inr (out1', out2, pooled) \<and>
                      shape out1' = butlast (shape pooled) @ [nc]))"
    unfolding a using wf fwd by (simp add: nth_append)
qed

theorem C3_adapt_frame_witness:
  "(\<exists>m h m2 h2.
      ResNet50WithEmbeddingHead_init [] 100 300 True = Inr (m, h) \<and>
      adapt h m 10 = Inr (m2, h2) \<and>
      h2 ! fc_classes m2 = Layer_obj (Linear 2048 10 Reset_parameters (Some Reset_parameters)) \<and>
      fc_emb m2 = fc_emb m \<and> model_resnet m2 = model_resnet m \<and>
      h2 ! fc_emb m2 = h ! fc_emb m \<and> h2 ! model_resnet m2 = h ! model_resnet m) \<and>
   (\<exists>m h m2 h2.
      ResNet18WithEmbeddingHead_init [] 100 128 True = Inr (m, h) \<and>
      adapt h m 10 = Inr (m2, h2) \<and>
      h2 ! fc_classes m2 = Layer_obj (Linear 512 10 Reset_parameters (Some Reset_parameters)) \<and>
      fc_emb m2 = fc_emb m \<and> model_resnet m2 = model_resnet m \<and>
      h2 ! fc_emb m2 = h ! fc_emb m \<and> h2 ! model_resnet m2 = h ! model_resnet m) \<and>
   (\<exists>m h m2 h2.
      WideResnetWithEmbeddingHead_init [] 100 3 28 128 = Inr (m, h) \<and>
      adapt h m 10 = Inr (m2, h2) \<and>
      h2 ! fc_classes m2 = Layer_obj (Linear 192 10 Reset_parameters (Some Reset_parameters)) \<and>
      fc_emb m2 = fc_emb m \<and> model_base m2 = model_base m \<and>
      h2 ! fc_emb m2 = h ! fc_emb m \<and> h2 ! model_base m2 = h ! model_base m)"
proof -
  obtain m1 h1 where i1: "ResNet50WithEmbeddingHead_init [] 100 300 True = Inr (m1, h1)"
    and n1: "num_ftrs m1 = 2048"
    by (simp add: ResNet50WithEmbeddingHead_init_iff)
  obtain m2 h2 where i2: "ResNet18WithEmbeddingHead_init [] 100 128 True = Inr (m2, h2)"
    and n2: "num_ftrs m2 = 512"
    by (simp add: ResNet18WithEmbeddingHead_init_iff)
  obtain m3 h3 where i3: "WideResnetWithEmbeddingHead_init [] 100 3 28 128 = Inr (m3, h3)"
    and n3: "num_ftrs m3 = 192"
    by (simp add: WideResnetWithEmbeddingHead_init_iff)
  have a: "\<exists>m' h'. adapt h1 m1 10 = Inr (m', h') \<and>
      h' ! fc_classes m' = Layer_obj (Linear 2048 10 Reset_parameters (Some Reset_parameters)) \<and>
      fc_emb m' = fc_emb m1 \<and> model_resnet m' = model_resnet m1 \<and>
      h' ! fc_emb m' = h1 ! fc_emb m1 \<and> h' ! model_resnet m' = h1 ! model_resnet m1"
    using C3_adapt_frame [where ?h0.0 = "[]" and c = 100 and e = 300 and p = True
        and m = m1 and h = h1 and nc = 10] i1 n1
    by simp metis
  have b: "\<exists>m' h'. adapt h2 m2 10 = Inr (m', h') \<and>
      h' ! fc_classes m' = Layer_obj (Linear 512 10 Reset_parameters (Some Reset_parameters)) \<and>
      fc_emb m' = fc_emb m2 \<and> model_resnet m' = model_resnet m2 \<and>
      h' ! fc_emb m' = h2 ! fc_emb m2 \<and> h' ! model_resnet m' = h2 ! model_resnet m2"
    using C3_adapt_frame [where ?h0.0 = "[]" and c = 100 and e = 128 and p = True
        and m = m2 and h = h2 and nc = 10] i2 n2
    by simp metis
  have c: "\<exists>m' h'. adapt h3 m3 10 = Inr (m', h') \<and>
      h' ! fc_classes m' = Layer_obj (Linear 192 10 Reset_parameters (Some Reset_parameters)) \<and>
      fc_emb m' = fc_emb m3 \<and> model_base m' = model_base m3 \<and>
      h' ! fc_emb m' = h3 ! fc_emb m3 \<and> h' ! model_base m' = h3 ! model_base m3"
    using C3_adapt_frame [where ?h0.0 = "[]" and c = 100 and e = 128 and k = 3 and n = 28
        and mw = m3 and hw = h3 and nc = 10] i3 n3
    by simp metis
  from i1 i2 i3 a b c show ?thesis by blast
qed

section \<open>Weight initialisation\<close>

text \<open>
  C9. The code does not initialise the whole model. \<open>WideResnetBackbone_init_iff\<close> shows
  what \<^verbatim>\<open>init_weight\<close> does to the backbone: every convolution weight is last written
  by \<^verbatim>\<open>kaiming_normal_\<close>, every normalisation layer has weight 1 and bias 0. But the
  backbone has no linear layer, so the \<^verbatim>\<open>nn.Linear\<close> branch of its loop never runs,
  and the constructor of WideResnet never calls \<^verbatim>\<open>WideResnet.init_weight\<close>: the bias of
  the classifier of \<^verbatim>\<open>WideResnet(10, 1, 28)\<close> is as the library's constructor left it,
  not zero. Calling \<^verbatim>\<open>init_weight\<close> on the constructed model would set it to zero.
\<close>

theorem C9_classifier_bias_not_zeroed:
  "map_sum message classifier (WideResnet_init 10 1 28) =
     Inr (Linear 64 10 Reset_parameters (Some Reset_parameters)) \<and>
   map_sum message classifier (bind (WideResnet_init 10 1 28) WideResnet_init_weight) =
     Inr (Linear 64 10 Xavier_normal (Some (Constant 0)))"
proof -
  obtain m where m: "WideResnet_init 10 1 28 = Inr m"
    and c: "classifier m = Linear 64 10 Reset_parameters (Some Reset_parameters)"
    by (simp add: WideResnet_init_iff)
  show ?thesis
    by (simp add: m c WideResnet_init_weight_def xavier_normal_inplace_def constant_inplace_def)
qed

end
